theory Spec2Isabelle
  imports Complex_Main "HOL-Library.AList" "HOL-Library.Char_ord" "HOL-Library.List_Lexorder"
begin

section \<open>JSON values and the Python operations the handlers apply to them\<close>

text \<open>
  The route handlers receive a JSON body and build a JSON body. A JSON value is what
  Python's \<^verbatim>\<open>json.loads\<close> produces: \<^verbatim>\<open>None\<close>, a bool, an int, a float, a string, a list or
  a dict. Floats are modelled as exact reals (no rounding error, no overflow, no NaN), and a
  dict as an association list read with \<open>map_of\<close>.
\<close>

datatype json =
    JNull
  | JBool bool
  | JInt int
  | JNum real
  | JStr string
  | JArr "json list"
  | JObj "(string \<times> json) list"

text \<open>A raised Python exception: the name of its class and its text, \<^verbatim>\<open>str(e)\<close>.\<close>

datatype exn = Exn (exn_type: string) (exn_msg: string)

text \<open>A text between single quotes, as the messages print names.\<close>

definition quoted :: "string \<Rightarrow> string" where
  "quoted s = CHR 0x27 # s @ [CHR 0x27]"

definition TypeError :: "string \<Rightarrow> exn" where
  "TypeError m = Exn ''TypeError'' m"

definition AttributeError :: "string \<Rightarrow> exn" where
  "AttributeError m = Exn ''AttributeError'' m"

definition KeyError :: "string \<Rightarrow> exn" where
  "KeyError m = Exn ''KeyError'' m"

definition ValueError :: "string \<Rightarrow> exn" where
  "ValueError m = Exn ''ValueError'' m"

definition IndexError :: "string \<Rightarrow> exn" where
  "IndexError m = Exn ''IndexError'' m"

text \<open>The name Python prints for the class of a JSON value, used in the texts of the
  exceptions the interpreter raises itself.\<close>

fun class_name :: "json \<Rightarrow> string" where
  "class_name JNull = ''NoneType''"
| "class_name (JBool _) = ''bool''"
| "class_name (JInt _) = ''int''"
| "class_name (JNum _) = ''float''"
| "class_name (JStr _) = ''str''"
| "class_name (JArr _) = ''list''"
| "class_name (JObj _) = ''dict''"

text \<open>Truthiness: \<^verbatim>\<open>not v\<close> is \<open>\<not> truthy v\<close>.\<close>

fun truthy :: "json \<Rightarrow> bool" where
  "truthy JNull = False"
| "truthy (JBool b) = b"
| "truthy (JInt i) = (i \<noteq> 0)"
| "truthy (JNum r) = (r \<noteq> 0)"
| "truthy (JStr s) = (s \<noteq> [])"
| "truthy (JArr xs) = (xs \<noteq> [])"
| "truthy (JObj kvs) = (kvs \<noteq> [])"

text \<open>\<^verbatim>\<open>v.get(key, default)\<close>: only a dict has the method.\<close>

fun py_get :: "json \<Rightarrow> string \<Rightarrow> json \<Rightarrow> exn + json" where
  "py_get (JObj kvs) k dflt = Inr (case map_of kvs k of None \<Rightarrow> dflt | Some v \<Rightarrow> v)"
| "py_get v k dflt = Inl (AttributeError (quoted (class_name v) @ '' object has no attribute '' @ quoted ''get''))"

text \<open>\<^verbatim>\<open>v[key]\<close> with a string key: a missing key of a dict raises, and no other JSON
  value can be indexed by a string.\<close>

fun py_item :: "json \<Rightarrow> string \<Rightarrow> exn + json" where
  "py_item (JObj kvs) k = (case map_of kvs k of None \<Rightarrow> Inl (KeyError (quoted k)) | Some v \<Rightarrow> Inr v)"
| "py_item v k = Inl (TypeError (quoted (class_name v) @ '' object cannot be indexed by a str''))"

text \<open>\<^verbatim>\<open>len(v)\<close>.\<close>

fun py_len :: "json \<Rightarrow> exn + nat" where
  "py_len (JStr s) = Inr (length s)"
| "py_len (JArr xs) = Inr (length xs)"
| "py_len (JObj kvs) = Inr (length kvs)"
| "py_len v = Inl (TypeError (''object of type '' @ quoted (class_name v) @ '' has no len()''))"

text \<open>\<^verbatim>\<open>key in v\<close> for a string key: a key of a dict, an element of a list, a substring
  of a string.\<close>

fun is_substr :: "string \<Rightarrow> string \<Rightarrow> bool" where
  "is_substr k [] = (k = [])"
| "is_substr k (c # cs) = (take (length k) (c # cs) = k \<or> is_substr k cs)"

fun py_in :: "string \<Rightarrow> json \<Rightarrow> exn + bool" where
  "py_in k (JObj kvs) = Inr (map_of kvs k \<noteq> None)"
| "py_in k (JArr xs) = Inr (JStr k \<in> set xs)"
| "py_in k (JStr s) = Inr (is_substr k s)"
| "py_in k v = Inl (TypeError (''argument of type '' @ quoted (class_name v) @ '' is not iterable''))"

text \<open>
  What the handlers use of the interpreter and of the host application is not in the
  repository; it is a parameter of the model, the record \<open>rt\<close> for the interpreter:
  \<^item> \<open>float_of_str\<close>, \<open>int_of_str\<close>: \<^verbatim>\<open>float(s)\<close> and \<^verbatim>\<open>int(s)\<close> on a string (\<open>None\<close> when
    they raise \<^verbatim>\<open>ValueError\<close>);
  \<^item> \<open>repr_of\<close>: \<^verbatim>\<open>str(v)\<close> of a float, a list or a dict;
  \<^item> \<open>json_loads\<close>: \<^verbatim>\<open>json.loads\<close> on the raw body;
  \<^item> \<open>format_exc\<close>: the text \<^verbatim>\<open>traceback.format_exc()\<close> gives while the exception is
    handled;
  \<^item> \<open>id_error_text\<close>: the text of the exception the host's \<^verbatim>\<open>ElementId\<close> constructor
    raises for a number that is no 64-bit integer;
  \<^item> \<open>len_ge_other\<close>: \<^verbatim>\<open>n >= v\<close> for an int \<open>n\<close> and a value \<open>v\<close> that is no number, which
    Python 2 answers by an order among types;
  \<^item> \<open>is_exception\<close>: \<^verbatim>\<open>isinstance(e, Exception)\<close>, which decides whether an
    \<^verbatim>\<open>except Exception\<close> clause catches \<open>e\<close>. It is false of \<^verbatim>\<open>SystemExit\<close>,
    \<^verbatim>\<open>KeyboardInterrupt\<close>, \<^verbatim>\<open>GeneratorExit\<close> and the classes derived from them, which only
    the code submitted to /execute\_code/ can raise: the operations of the interpreter that
    the handlers use and the calls of the host raise instances of \<^verbatim>\<open>Exception\<close> (a .NET
    exception is one in IronPython).
\<close>

record rt =
  float_of_str :: "string \<Rightarrow> real option"
  int_of_str :: "string \<Rightarrow> int option"
  repr_of :: "json \<Rightarrow> string"
  json_loads :: "string \<Rightarrow> exn + json"
  format_exc :: "exn \<Rightarrow> string"
  id_error_text :: "int \<Rightarrow> string"
  len_ge_other :: "nat \<Rightarrow> json \<Rightarrow> bool"
  is_exception :: "exn \<Rightarrow> bool"

text \<open>\<^verbatim>\<open>float(v)\<close>.\<close>

fun py_float :: "rt \<Rightarrow> json \<Rightarrow> exn + real" where
  "py_float r (JInt i) = Inr (of_int i)"
| "py_float r (JNum x) = Inr x"
| "py_float r (JBool b) = Inr (if b then 1 else 0)"
| "py_float r (JStr s) =
     (case float_of_str r s of
        None \<Rightarrow> Inl (ValueError (''could not convert string to float: '' @ s))
      | Some x \<Rightarrow> Inr x)"
| "py_float r v = Inl (TypeError (''float() argument must be a string or a number, not '' @ quoted (class_name v)))"

text \<open>\<^verbatim>\<open>int(v)\<close>: a float is truncated towards zero.\<close>

fun py_int :: "rt \<Rightarrow> json \<Rightarrow> exn + int" where
  "py_int r (JInt i) = Inr i"
| "py_int r (JBool b) = Inr (if b then 1 else 0)"
| "py_int r (JNum x) = Inr (if 0 \<le> x then \<lfloor>x\<rfloor> else \<lceil>x\<rceil>)"
| "py_int r (JStr s) =
     (case int_of_str r s of
        None \<Rightarrow> Inl (ValueError (''invalid literal for int() with base 10: '' @ quoted s))
      | Some i \<Rightarrow> Inr i)"
| "py_int r v = Inl (TypeError (''int() argument must be a string or a number, not '' @ quoted (class_name v)))"

text \<open>Decimal digits of a number, as \<^verbatim>\<open>"{}".format(n)\<close> prints an int.\<close>

fun show_nat :: "nat \<Rightarrow> string" where
  "show_nat n =
     (if n < 10 then [''0123456789'' ! n]
      else show_nat (n div 10) @ [''0123456789'' ! (n mod 10)])"

declare show_nat.simps [simp del]

definition show_int :: "int \<Rightarrow> string" where
  "show_int i = (if i < 0 then CHR ''-'' # show_nat (nat (- i)) else show_nat (nat i))"

text \<open>\<^verbatim>\<open>str(v)\<close>, which is also how \<^verbatim>\<open>"{}".format(v)\<close> prints \<open>v\<close>.\<close>

fun py_str :: "rt \<Rightarrow> json \<Rightarrow> string" where
  "py_str r (JStr s) = s"
| "py_str r (JInt i) = show_int i"
| "py_str r (JBool b) = (if b then ''True'' else ''False'')"
| "py_str r JNull = ''None''"
| "py_str r v = repr_of r v"

text \<open>Iterating over a JSON value: the elements of a list, the characters of a string, the
  keys of a dict (in the order of the association list).\<close>

fun py_iter :: "json \<Rightarrow> exn + json list" where
  "py_iter (JArr xs) = Inr xs"
| "py_iter (JStr s) = Inr (map (\<lambda>c. JStr [c]) s)"
| "py_iter (JObj kvs) = Inr (map (\<lambda>kv. JStr (fst kv)) kvs)"
| "py_iter v = Inl (TypeError (quoted (class_name v) @ '' object is not iterable''))"

text \<open>Sequencing of computations that may raise: \<open>Inl e\<close> is the exception \<open>e\<close>
  propagating.\<close>

definition ebind :: "exn + 'a \<Rightarrow> ('a \<Rightarrow> exn + 'b) \<Rightarrow> exn + 'b" where
  "ebind m f = (case m of Inl e \<Rightarrow> Inl e | Inr x \<Rightarrow> f x)"

text \<open>The same for computations that also change the host's state \<open>'d\<close>: the state
  reached when the exception was raised is kept.\<close>

definition sbind :: "(exn + 'a) \<times> 'd \<Rightarrow> ('a \<Rightarrow> 'd \<Rightarrow> (exn + 'b) \<times> 'd) \<Rightarrow> (exn + 'b) \<times> 'd" where
  "sbind m f = (case m of (Inl e, d) \<Rightarrow> (Inl e, d) | (Inr x, d) \<Rightarrow> f x d)"

section \<open>Responses and requests\<close>

text \<open>\<^verbatim>\<open>routes.make_response(data=..., status=...)\<close>; the status is 200 when none is given.\<close>

record response =
  status :: nat
  body :: "(string \<times> json) list"

definition make_response :: "(string \<times> json) list \<Rightarrow> nat \<Rightarrow> response" where
  "make_response dat st = \<lparr>status = st, body = dat\<rparr>"

definition ok_response :: "(string \<times> json) list \<Rightarrow> response" where
  "ok_response dat = make_response dat 200"

text \<open>
  A request is \<open>None\<close> when the handler is given no request object, and otherwise its
  \<^verbatim>\<open>data\<close> attribute: \<open>JStr s\<close> is a body still to be parsed (\<^verbatim>\<open>isinstance(request.data, str)\<close>),
  \<open>JNull\<close> is \<^verbatim>\<open>None\<close>, anything else an already parsed body.
\<close>

type_synonym request = "json option"

text \<open>\<^verbatim>\<open>request.data\<close>.\<close>

definition request_data :: "request \<Rightarrow> exn + json" where
  "request_data req =
     (case req of
        None \<Rightarrow> Inl (AttributeError (quoted ''NoneType'' @ '' object has no attribute '' @ quoted ''data''))
      | Some v \<Rightarrow> Inr v)"

text \<open>\<^verbatim>\<open>json.loads(request.data) if isinstance(request.data, str) else request.data\<close>.\<close>

definition load_data :: "rt \<Rightarrow> request \<Rightarrow> exn + json" where
  "load_data r req =
     ebind (request_data req) (\<lambda>v. case v of JStr s \<Rightarrow> json_loads r s | _ \<Rightarrow> Inr v)"

text \<open>\<^verbatim>\<open>not request or not request.data\<close>.\<close>

definition no_request_data :: "request \<Rightarrow> bool" where
  "no_request_data req = (case req of None \<Rightarrow> True | Some v \<Rightarrow> \<not> truthy v)"

text \<open>The body of every handler's outermost \<^verbatim>\<open>except Exception as e\<close>, except in
  \<^verbatim>\<open>execute_code\<close>.\<close>

definition error_500 :: "rt \<Rightarrow> exn \<Rightarrow> response" where
  "error_500 r e =
     make_response [(''error'', JStr (exn_msg e)), (''traceback'', JStr (format_exc r e))] 500"

section \<open>The host application\<close>

text \<open>
  The handlers run inside the host application and call its object model. The host is
  proprietary and not part of the repository, so it is a parameter of the model: a record
  of the operations the handlers call, over the host's state \<open>'d\<close>. An operation that
  changes the document returns the new state; one that can raise returns \<open>Inl\<close> of the
  exception. Elements, element types, levels and views are represented by the integer of
  their \<^verbatim>\<open>ElementId\<close>.
  \<^item> \<open>has_doc\<close>: the handler's \<^verbatim>\<open>doc\<close> argument is not \<^verbatim>\<open>None\<close>;
  \<^item> \<open>tx_start\<close>: \<^verbatim>\<open>t = DB.Transaction(doc, name); t.Start()\<close>; \<open>tx_commit\<close>: \<^verbatim>\<open>t.Commit()\<close>;
    \<open>tx_rollback\<close>: \<^verbatim>\<open>t.RollBack()\<close>; \<open>tx_active\<close>: \<^verbatim>\<open>t.HasStarted() and not t.HasEnded()\<close>;
  \<^item> \<open>elem_name\<close>: reading \<^verbatim>\<open>element.Name\<close>; \<open>set_name\<close>: assigning it;
  \<^item> \<open>get_element\<close>: \<^verbatim>\<open>doc.GetElement(id)\<close> is an element and not \<^verbatim>\<open>None\<close>;
  \<^item> \<open>delete\<close>: \<^verbatim>\<open>doc.Delete(id)\<close>, the ids of everything the host deleted;
  \<^item> \<open>level_create\<close>: \<^verbatim>\<open>DB.Level.Create(doc, elevation)\<close>;
  \<^item> \<open>doc_levels\<close>, \<open>doc_wall_types\<close>, \<open>doc_beam_types\<close>, \<open>doc_floor_types\<close>, \<open>doc_roof_types\<close>: what the
    \<^verbatim>\<open>FilteredElementCollector\<close> queries of building.py return; \<open>level_elevation\<close>: a level's
    \<^verbatim>\<open>Elevation\<close>;
  \<^item> \<open>create_bound\<close>: the exception of \<^verbatim>\<open>DB.Line.CreateBound(p, q)\<close>, if it raises one (the
    line itself is the pair of its end points);
  \<^item> \<open>wall_create\<close>: \<^verbatim>\<open>DB.Wall.Create(doc, line, type, level, height, offset, False, structural)\<close>;
  \<^item> \<open>is_active\<close>, \<open>activate\<close>, \<open>regenerate\<close>: \<^verbatim>\<open>symbol.IsActive\<close>, \<^verbatim>\<open>symbol.Activate()\<close>,
    \<^verbatim>\<open>doc.Regenerate()\<close>;
  \<^item> \<open>new_beam\<close>: \<^verbatim>\<open>doc.Create.NewFamilyInstance(line, symbol, level, StructuralType.Beam)\<close>, the
    level being \<open>None\<close> when the handler passes \<^verbatim>\<open>None\<close>;
  \<^item> \<open>loop_append\<close>: the exception of \<^verbatim>\<open>curve_loop.Append(line)\<close>, if any, given the lines
    appended before;
  \<^item> \<open>floor_create\<close>: \<^verbatim>\<open>DB.Floor.Create(doc, loops, type, level)\<close>; \<open>floor_offset_param\<close>: the
    floor's height-above-level parameter, \<open>None\<close> when it has none and otherwise whether it is
    read-only; \<open>set_floor_offset\<close>: \<^verbatim>\<open>Set\<close> on that parameter;
  \<^item> \<open>new_footprint_roof\<close>: \<^verbatim>\<open>doc.Create.NewFootPrintRoof(curves, level, type, model_curves)\<close>;
  \<^item> \<open>grid_create\<close>: \<^verbatim>\<open>DB.Grid.Create(doc, line)\<close>;
  \<^item> \<open>exec_code\<close>: \<^verbatim>\<open>exec(code, namespace)\<close> with the text it printed, captured or not;
  \<^item> \<open>doc_phases\<close>: \<^verbatim>\<open>doc.Phases\<close>; \<open>new_room_at\<close>: \<^verbatim>\<open>doc.Create.NewRoom(level, DB.UV(x, y))\<close>;
    \<open>new_room_phase\<close>: \<^verbatim>\<open>doc.Create.NewRoom(phase)\<close>; either gives \<open>None\<close> for \<^verbatim>\<open>None\<close>;
  \<^item> \<open>lookup_parameter\<close>: \<^verbatim>\<open>element.LookupParameter(name)\<close>, \<open>None\<close> for \<^verbatim>\<open>None\<close>, with what the
    handlers read of the parameter; \<open>set_parameter\<close>: \<^verbatim>\<open>Set\<close> on it;
  \<^item> \<open>active_view\<close>: \<^verbatim>\<open>doc.ActiveView\<close>; \<open>view_type\<close>: the name of the view's \<^verbatim>\<open>ViewType\<close>;
  \<^item> \<open>builtin_category\<close>: \<^verbatim>\<open>DB.BuiltInCategory\<close> has an attribute of that name;
  \<^item> \<open>outline_error\<close>: the exception, if any, of building the bounding-box filter and
    applying it with \<^verbatim>\<open>WherePasses\<close>;
  \<^item> \<open>collect\<close>: what \<^verbatim>\<open>ToElements()\<close> gives for the collector of the view (if one is
    given), of the category (if one is given), without element types, within the bounding
    box (if one is given); an exception of any of these calls;
  \<^item> \<open>category_name\<close>: \<^verbatim>\<open>elem.Category.Name\<close>, \<open>None\<close> when the element has no category;
    \<open>type_id\<close>: \<^verbatim>\<open>elem.GetTypeId()\<close> and \<open>level_id\<close>: \<^verbatim>\<open>elem.LevelId\<close>, \<open>None\<close> when the id
    is null or the invalid id;
  \<^item> \<open>doc_views\<close>: the views the collector of /set\_active\_view/ returns; \<open>is_template\<close>:
    \<^verbatim>\<open>view.IsTemplate\<close>; \<open>set_active_view\<close>: \<^verbatim>\<open>uidoc.ActiveView = view\<close>;
  \<^item> \<open>doc_duct_types\<close>, \<open>doc_pipe_types\<close>: what the collectors of mep.py return for
    \<^verbatim>\<open>DuctType\<close> and \<^verbatim>\<open>PipeType\<close>.
\<close>

type_synonym xyz = "real \<times> real \<times> real"
type_synonym line = "xyz \<times> xyz"

text \<open>What the handlers read of a parameter of an element.\<close>

record param =
  is_read_only :: bool
  has_value :: bool
  as_double :: "exn + real"
  as_string :: "exn + string option"

record 'd host =
  has_doc :: "'d \<Rightarrow> bool"
  tx_start :: "string \<Rightarrow> 'd \<Rightarrow> (exn + unit) \<times> 'd"
  tx_commit :: "'d \<Rightarrow> (exn + unit) \<times> 'd"
  tx_rollback :: "'d \<Rightarrow> (exn + unit) \<times> 'd"
  tx_active :: "'d \<Rightarrow> bool"
  elem_name :: "'d \<Rightarrow> int \<Rightarrow> exn + string option"
  set_name :: "int \<Rightarrow> string \<Rightarrow> 'd \<Rightarrow> (exn + unit) \<times> 'd"
  get_element :: "'d \<Rightarrow> int \<Rightarrow> bool"
  delete :: "int \<Rightarrow> 'd \<Rightarrow> (exn + int list) \<times> 'd"
  level_create :: "real \<Rightarrow> 'd \<Rightarrow> (exn + int) \<times> 'd"
  doc_levels :: "'d \<Rightarrow> int list"
  level_elevation :: "'d \<Rightarrow> int \<Rightarrow> real"
  doc_wall_types :: "'d \<Rightarrow> int list"
  doc_beam_types :: "'d \<Rightarrow> int list"
  doc_floor_types :: "'d \<Rightarrow> int list"
  doc_roof_types :: "'d \<Rightarrow> int list"
  create_bound :: "xyz \<Rightarrow> xyz \<Rightarrow> exn option"
  wall_create :: "line \<Rightarrow> int \<Rightarrow> int \<Rightarrow> real \<Rightarrow> real \<Rightarrow> bool \<Rightarrow> 'd \<Rightarrow> (exn + int) \<times> 'd"
  is_active :: "'d \<Rightarrow> int \<Rightarrow> bool"
  activate :: "int \<Rightarrow> 'd \<Rightarrow> (exn + unit) \<times> 'd"
  regenerate :: "'d \<Rightarrow> (exn + unit) \<times> 'd"
  new_beam :: "line \<Rightarrow> int \<Rightarrow> int option \<Rightarrow> 'd \<Rightarrow> (exn + int) \<times> 'd"
  loop_append :: "line list \<Rightarrow> line \<Rightarrow> exn option"
  floor_create :: "line list \<Rightarrow> int \<Rightarrow> int \<Rightarrow> 'd \<Rightarrow> (exn + int) \<times> 'd"
  floor_offset_param :: "'d \<Rightarrow> int \<Rightarrow> bool option"
  set_floor_offset :: "int \<Rightarrow> real \<Rightarrow> 'd \<Rightarrow> (exn + unit) \<times> 'd"
  new_footprint_roof :: "line list \<Rightarrow> int \<Rightarrow> int \<Rightarrow> 'd \<Rightarrow> (exn + int) \<times> 'd"
  grid_create :: "line \<Rightarrow> 'd \<Rightarrow> (exn + int) \<times> 'd"
  exec_code :: "json \<Rightarrow> 'd \<Rightarrow> ((exn + unit) \<times> string) \<times> 'd"
  doc_phases :: "'d \<Rightarrow> int list"
  new_room_at :: "int \<Rightarrow> real \<times> real \<Rightarrow> 'd \<Rightarrow> (exn + int option) \<times> 'd"
  new_room_phase :: "int \<Rightarrow> 'd \<Rightarrow> (exn + int option) \<times> 'd"
  lookup_parameter :: "'d \<Rightarrow> int \<Rightarrow> string \<Rightarrow> exn + param option"
  set_parameter :: "int \<Rightarrow> string \<Rightarrow> json \<Rightarrow> 'd \<Rightarrow> (exn + unit) \<times> 'd"
  active_view :: "'d \<Rightarrow> int option"
  view_type :: "'d \<Rightarrow> int \<Rightarrow> string"
  builtin_category :: "string \<Rightarrow> bool"
  outline_error :: "xyz \<Rightarrow> xyz \<Rightarrow> exn option"
  collect :: "'d \<Rightarrow> int option \<Rightarrow> string option \<Rightarrow> (xyz \<times> xyz) option \<Rightarrow> exn + int list"
  category_name :: "'d \<Rightarrow> int \<Rightarrow> exn + string option"
  type_id :: "'d \<Rightarrow> int \<Rightarrow> exn + int option"
  level_id :: "'d \<Rightarrow> int \<Rightarrow> exn + int option"
  doc_views :: "'d \<Rightarrow> int list"
  is_template :: "'d \<Rightarrow> int \<Rightarrow> exn + bool"
  set_active_view :: "int \<Rightarrow> 'd \<Rightarrow> (exn + unit) \<times> 'd"
  doc_duct_types :: "'d \<Rightarrow> int list"
  doc_pipe_types :: "'d \<Rightarrow> int list"

text \<open>The handlers' \<^verbatim>\<open>except\<close> clause around the transaction: roll back when the
  transaction is still open. An exception raised by the rollback itself replaces the one
  being handled.\<close>

definition rollback_if_active :: "'d host \<Rightarrow> 'd \<Rightarrow> (exn + unit) \<times> 'd" where
  "rollback_if_active h d = (if tx_active h d then tx_rollback h d else (Inr (), d))"

section \<open>utils.py\<close>

text \<open>\<^verbatim>\<open>sanitize_string\<close>: \<^verbatim>\<open>None\<close> becomes \<^verbatim>\<open>"Unnamed"\<close> and every character outside ASCII
  a question mark. One \<open>char\<close> of a host name stands for one character.\<close>

definition sanitize_string :: "string option \<Rightarrow> string" where
  "sanitize_string text =
     (case text of
        None \<Rightarrow> ''Unnamed''
      | Some s \<Rightarrow> map (\<lambda>c. if of_char c < (128::nat) then c else CHR ''?'') s)"

text \<open>\<^verbatim>\<open>get_element_name\<close>.\<close>

definition get_element_name :: "'d host \<Rightarrow> 'd \<Rightarrow> int \<Rightarrow> exn + string" where
  "get_element_name h d e = ebind (elem_name h d e) (\<lambda>n. Inr (sanitize_string n))"

text \<open>\<^verbatim>\<open>get_element_id_value\<close>: an element or an \<^verbatim>\<open>ElementId\<close> is represented by its integer
  already, so the function is the identity here; its \<^verbatim>\<open>ValueError\<close> for \<^verbatim>\<open>None\<close> and for
  objects without an id is never reached by the handlers modelled below.\<close>

definition get_element_id_value :: "int \<Rightarrow> int" where
  "get_element_id_value e = e"

text \<open>\<^verbatim>\<open>make_element_id\<close>: \<^verbatim>\<open>int(id_value)\<close> raises only \<^verbatim>\<open>TypeError\<close> or \<^verbatim>\<open>ValueError\<close>, both
  caught and replaced; a number outside the 64-bit range fails in \<^verbatim>\<open>System.Int64\<close> and then
  in \<^verbatim>\<open>DB.ElementId(int_val)\<close>.\<close>

definition make_element_id :: "rt \<Rightarrow> json \<Rightarrow> exn + int" where
  "make_element_id r id_value =
     (if id_value = JNull then Inl (ValueError ''Cannot create ElementId from None'')
      else case py_int r id_value of
        Inl e \<Rightarrow> Inl (ValueError (''Cannot create ElementId from '' @ repr_of r id_value @
                    '': not a valid integer''))
      | Inr int_val \<Rightarrow>
          if - (2 ^ 63) \<le> int_val \<and> int_val < 2 ^ 63 then Inr int_val
          else Inl (ValueError (''Cannot create ElementId from '' @ py_str r id_value @ '': '' @
                    id_error_text r int_val)))"

section \<open>editing.py: /delete\_elements/\<close>

text \<open>The validation loop: every id is resolved before anything is deleted. \<open>Inr (Inl resp)\<close>
  is the early \<^verbatim>\<open>return\<close> of the 404 response.\<close>

fun validate_ids :: "'d host \<Rightarrow> rt \<Rightarrow> 'd \<Rightarrow> json list \<Rightarrow> int list \<Rightarrow> exn + (response + int list)" where
  "validate_ids h r d [] elements_to_delete = Inr (Inr elements_to_delete)"
| "validate_ids h r d (eid # rest) elements_to_delete =
     ebind (make_element_id r eid) (\<lambda>elem_id.
       if \<not> get_element h d elem_id then
         Inr (Inl (make_response
           [(''error'', JStr (''Element '' @ py_str r eid @ '' not found in the active model''))] 404))
       else validate_ids h r d rest (elements_to_delete @ [elem_id]))"

text \<open>Tracking the cascaded deletions of one \<^verbatim>\<open>doc.Delete\<close>.\<close>

definition track_cascaded :: "int \<Rightarrow> int list \<Rightarrow> int list \<Rightarrow> int list" where
  "track_cascaded primary_id result cascaded_ids =
     foldl (\<lambda>acc del_id.
              if get_element_id_value del_id \<noteq> primary_id \<and> get_element_id_value del_id \<notin> set acc
              then acc @ [get_element_id_value del_id] else acc)
       cascaded_ids result"

fun delete_loop :: "'d host \<Rightarrow> int list \<Rightarrow> int list \<times> int list \<Rightarrow> 'd \<Rightarrow> (exn + int list \<times> int list) \<times> 'd" where
  "delete_loop h [] acc d = (Inr acc, d)"
| "delete_loop h (elem_id # rest) acc d =
     sbind (delete h elem_id d) (\<lambda>result d'.
       let primary_id = get_element_id_value elem_id
       in delete_loop h rest (fst acc @ [primary_id], track_cascaded primary_id result (snd acc)) d')"

definition plural :: "nat \<Rightarrow> string" where
  "plural n = (if n \<noteq> 1 then ''s'' else [])"

definition delete_message :: "int list \<Rightarrow> int list \<Rightarrow> string" where
  "delete_message deleted_ids cascaded_ids =
     ''Deleted '' @ show_nat (length deleted_ids) @ '' element'' @ plural (length deleted_ids) @
     (if cascaded_ids \<noteq> [] then
        '' ('' @ show_nat (length cascaded_ids) @ '' hosted element'' @ plural (length cascaded_ids) @
        '' also removed)''
      else [])"

definition delete_success :: "int list \<Rightarrow> int list \<Rightarrow> response" where
  "delete_success deleted_ids cascaded =
     (let cascaded_ids = filter (\<lambda>cid. cid \<notin> set deleted_ids) cascaded
      in ok_response
        [(''status'', JStr ''success''),
         (''deleted_count'', JInt (int (length deleted_ids))),
         (''deleted_ids'', JArr (map JInt deleted_ids)),
         (''cascaded_ids'', JArr (map JInt cascaded_ids)),
         (''message'', JStr (delete_message deleted_ids cascaded_ids))])"

text \<open>The transaction's \<^verbatim>\<open>try\<close> block: the deletions, the commit, the response.\<close>

definition delete_try :: "'d host \<Rightarrow> int list \<Rightarrow> 'd \<Rightarrow> (exn + response) \<times> 'd" where
  "delete_try h elements_to_delete d =
     sbind (delete_loop h elements_to_delete ([], []) d) (\<lambda>acc d'.
       sbind (tx_commit h d') (\<lambda>_ d''. (Inr (delete_success (fst acc) (snd acc)), d'')))"

text \<open>The \<^verbatim>\<open>try\<close> block with its \<^verbatim>\<open>except\<close> clause, which rolls back and raises the
  exception again.\<close>

definition delete_transaction :: "'d host \<Rightarrow> int list \<Rightarrow> 'd \<Rightarrow> (exn + response) \<times> 'd" where
  "delete_transaction h elements_to_delete d =
     (case delete_try h elements_to_delete d of
        (Inr resp, d') \<Rightarrow> (Inr resp, d')
      | (Inl tx_error, d') \<Rightarrow>
          sbind (rollback_if_active h d') (\<lambda>_ d''. (Inl tx_error, d'')))"

definition delete_elements_body :: "'d host \<Rightarrow> rt \<Rightarrow> 'd \<Rightarrow> request \<Rightarrow> (exn + response) \<times> 'd" where
  "delete_elements_body h r d req =
     (if \<not> has_doc h d then
        (Inr (make_response [(''error'', JStr ''No active Revit document'')] 503), d)
      else if no_request_data req then
        (Inr (make_response [(''error'', JStr ''No data provided'')] 400), d)
      else case ebind (load_data r req) (\<lambda>data. py_get data ''element_ids'' (JArr [])) of
        Inl e \<Rightarrow> (Inl e, d)
      | Inr element_ids \<Rightarrow>
          if \<not> truthy element_ids then
            (Inr (make_response [(''error'', JStr ''No element_ids provided'')] 400), d)
          else
            (case ebind (py_iter element_ids) (\<lambda>ids. validate_ids h r d ids []) of
               Inl e \<Rightarrow> (Inl e, d)
             | Inr (Inl resp) \<Rightarrow> (Inr resp, d)
             | Inr (Inr elements_to_delete) \<Rightarrow>
                 sbind (tx_start h ''Delete Elements via MCP'' d) (\<lambda>_ d'.
                   delete_transaction h elements_to_delete d')))"

definition delete_elements_handler :: "'d host \<Rightarrow> rt \<Rightarrow> 'd \<Rightarrow> request \<Rightarrow> response \<times> 'd" where
  "delete_elements_handler h r d req =
     (case delete_elements_body h r d req of
        (Inr resp, d') \<Rightarrow> (resp, d')
      | (Inl e, d') \<Rightarrow> (error_500 r e, d'))"

section \<open>Units\<close>

text \<open>
  The constants of analysis.py. Every module that converts lengths defines the same
  \<^verbatim>\<open>MM_TO_FEET\<close>; building.py divides by the literal 304.8 instead.
\<close>

definition MM_TO_FEET :: real where
  "MM_TO_FEET = 1.0 / 304.8"

definition SQFT_TO_SQM :: real where
  "SQFT_TO_SQM = 0.0929"

definition CUFT_TO_CUM :: real where
  "CUFT_TO_CUM = 0.0283168"

text \<open>\<^verbatim>\<open>round(x, n)\<close> of IronPython 2: to \<open>n\<close> decimals, a half away from zero.\<close>

definition py_round :: "real \<Rightarrow> nat \<Rightarrow> real" where
  "py_round x n = sgn x * of_int \<lfloor>\<bar>x\<bar> * 10 ^ n + 1 / 2\<rfloor> / 10 ^ n"

section \<open>building.py\<close>

text \<open>
  One pass through the body of a batch loop ends in one of three ways: an exception reaches
  the \<^verbatim>\<open>except\<close> clause of the item (\<open>Raise\<close>); the item is given up with
  \<^verbatim>\<open>errors.append(message); continue\<close> (\<open>Skip\<close>); or the statements go on with a value
  (\<open>Ok\<close>).
\<close>

datatype 'a step = Raise exn | Skip string | Ok 'a

definition of_sum :: "exn + 'a \<Rightarrow> 'a step" where
  "of_sum m = (case m of Inl e \<Rightarrow> Raise e | Inr x \<Rightarrow> Ok x)"

text \<open>A host operation as a step.\<close>

definition run :: "(exn + 'a) \<times> 'd \<Rightarrow> 'a step \<times> 'd" where
  "run m = (of_sum (fst m), snd m)"

definition tbind :: "'a step \<times> 'd \<Rightarrow> ('a \<Rightarrow> 'd \<Rightarrow> 'b step \<times> 'd) \<Rightarrow> 'b step \<times> 'd" where
  "tbind m f =
     (case m of
        (Raise e, d) \<Rightarrow> (Raise e, d)
      | (Skip s, d) \<Rightarrow> (Skip s, d)
      | (Ok x, d) \<Rightarrow> f x d)"

text \<open>The dash of the handlers' messages, U+2014, in UTF-8.\<close>

definition em_dash :: string where
  "em_dash = [char_of (0xE2::nat), char_of (0x80::nat), char_of (0x94::nat)]"

definition no_document_2026 :: response where
  "no_document_2026 =
     make_response
       [(''error'', JStr (''No active Revit document '' @ em_dash @ '' open a project in Revit 2026''))]
       503"

text \<open>
  The loop of the three handlers of building.py: each item appends one entry to
  \<^verbatim>\<open>created\<close> or one entry to \<^verbatim>\<open>errors\<close>. \<open>label\<close> is \<^verbatim>\<open>"Level"\<close> in /create\_level/ and
  \<^verbatim>\<open>"Element"\<close> in the other two; \<open>idx\<close> is the index \<^verbatim>\<open>enumerate\<close> gives.
\<close>

fun batch_loop ::
  "string \<Rightarrow> (nat \<Rightarrow> json \<Rightarrow> 'd \<Rightarrow> json step \<times> 'd) \<Rightarrow> nat \<Rightarrow> json list \<Rightarrow>
   json list \<times> string list \<Rightarrow> 'd \<Rightarrow> (json list \<times> string list) \<times> 'd" where
  "batch_loop label item idx [] acc d = (acc, d)"
| "batch_loop label item idx (elem # rest) acc d =
     (case item idx elem d of
        (Ok entry, d') \<Rightarrow> batch_loop label item (Suc idx) rest (fst acc @ [entry], snd acc) d'
      | (Skip message, d') \<Rightarrow> batch_loop label item (Suc idx) rest (fst acc, snd acc @ [message]) d'
      | (Raise err, d') \<Rightarrow>
          batch_loop label item (Suc idx) rest
            (fst acc, snd acc @ [label @ '' '' @ show_nat idx @ '': '' @ exn_msg err]) d')"

text \<open>The \<^verbatim>\<open>except Exception as tx_err\<close> clause around the loop and the commit.\<close>

definition transaction_failed :: "'d host \<Rightarrow> exn \<Rightarrow> 'd \<Rightarrow> (exn + response) \<times> 'd" where
  "transaction_failed h tx_err d =
     sbind (rollback_if_active h d) (\<lambda>_ d'.
       (Inr (make_response [(''error'', JStr (''Transaction failed: '' @ exn_msg tx_err))] 500), d'))"

text \<open>The success response; \<^verbatim>\<open>errors\<close> is added only when it is not empty.\<close>

definition batch_success :: "string \<Rightarrow> json list \<Rightarrow> string list \<Rightarrow> response" where
  "batch_success unit created errors =
     ok_response
       ([(''status'', JStr ''success''),
         (''created'', JArr created),
         (''count'', JInt (int (length created))),
         (''message'', JStr (''Created '' @ show_nat (length created) @ '' '' @ unit @ ''(s)''))]
        @ (if errors \<noteq> [] then [(''errors'', JArr (map JStr errors))] else []))"

text \<open>The \<^verbatim>\<open>try\<close> block of the transaction: the \<^verbatim>\<open>for\<close> statement (which raises when
  the value cannot be iterated) and the commit.\<close>

definition batch_try ::
  "'d host \<Rightarrow> string \<Rightarrow> (nat \<Rightarrow> json \<Rightarrow> 'd \<Rightarrow> json step \<times> 'd) \<Rightarrow> json \<Rightarrow> 'd \<Rightarrow>
   (exn + json list \<times> string list) \<times> 'd" where
  "batch_try h label item elements d0 =
     (case py_iter elements of
        Inl e \<Rightarrow> (Inl e, d0)
      | Inr elems \<Rightarrow>
          (case batch_loop label item 0 elems ([], []) d0 of
             (acc, d1) \<Rightarrow> sbind (tx_commit h d1) (\<lambda>_ d2. (Inr acc, d2))))"

text \<open>From \<^verbatim>\<open>t.Start()\<close> to the response: the \<^verbatim>\<open>try\<close> block, its \<^verbatim>\<open>except\<close> clause, and
  the success response.\<close>

definition batch_transaction ::
  "'d host \<Rightarrow> string \<Rightarrow> string \<Rightarrow> string \<Rightarrow> (nat \<Rightarrow> json \<Rightarrow> 'd \<Rightarrow> json step \<times> 'd) \<Rightarrow> json \<Rightarrow> 'd \<Rightarrow>
   (exn + response) \<times> 'd" where
  "batch_transaction h tx_name label unit item elements d =
     sbind (tx_start h tx_name d) (\<lambda>_ d0.
       case batch_try h label item elements d0 of
         (Inl tx_err, d2) \<Rightarrow> transaction_failed h tx_err d2
       | (Inr acc, d2) \<Rightarrow> (Inr (batch_success unit (fst acc) (snd acc)), d2))"

subsection \<open>/create\_level/\<close>

definition level_item :: "'d host \<Rightarrow> rt \<Rightarrow> nat \<Rightarrow> json \<Rightarrow> 'd \<Rightarrow> json step \<times> 'd" where
  "level_item h r idx lv d =
     tbind (of_sum (py_get lv ''elevation'' JNull), d) (\<lambda>elevation_mm d.
       if elevation_mm = JNull then
         (Skip (''Level '' @ show_nat idx @ '': elevation is required''), d)
       else
         tbind (of_sum (py_float r elevation_mm), d) (\<lambda>elevation d.
         tbind (run (level_create h (elevation / 304.8) d)) (\<lambda>new_level d.
         tbind (of_sum (py_get lv ''name'' JNull), d) (\<lambda>name d.
         tbind (if truthy name then run (set_name h new_level (py_str r name) d) else (Ok (), d)) (\<lambda>_ d.
         tbind (of_sum (get_element_name h d new_level), d) (\<lambda>level_name d.
           (Ok (JObj [(''id'', JInt (get_element_id_value new_level)),
                      (''name'', JStr level_name),
                      (''elevation_mm'', JNum elevation)]), d)))))))"

definition create_level_body :: "'d host \<Rightarrow> rt \<Rightarrow> 'd \<Rightarrow> request \<Rightarrow> (exn + response) \<times> 'd" where
  "create_level_body h r d req =
     (if \<not> has_doc h d then (Inr no_document_2026, d)
      else case ebind (load_data r req) (\<lambda>data. py_get data ''levels'' (JArr [])) of
        Inl e \<Rightarrow> (Inl e, d)
      | Inr levels \<Rightarrow>
          if \<not> truthy levels then
            (Inr (make_response
               [(''error'', JStr (''No levels provided '' @ em_dash @ '' pass an array of level definitions''))]
               400), d)
          else batch_transaction h ''Create Levels'' ''Level'' ''level'' (level_item h r) levels d)"

definition create_level_handler :: "'d host \<Rightarrow> rt \<Rightarrow> 'd \<Rightarrow> request \<Rightarrow> response \<times> 'd" where
  "create_level_handler h r d req =
     (case create_level_body h r d req of
        (Inr resp, d') \<Rightarrow> (resp, d')
      | (Inl e, d') \<Rightarrow> (error_500 r e, d'))"

subsection \<open>/create\_line/\<close>

text \<open>
  The dictionaries from names to levels and to types: an element whose name cannot be read
  is left out, and a later element replaces an earlier one of the same name. A dictionary
  is an association list in the order of first insertion (IronPython leaves the order of a
  dictionary open; no property below depends on it).
\<close>

definition name_map :: "'d host \<Rightarrow> 'd \<Rightarrow> int list \<Rightarrow> (string \<times> int) list" where
  "name_map h d elements =
     foldl (\<lambda>m e. case get_element_name h d e of
                      Inl _ \<Rightarrow> m
                    | Inr n \<Rightarrow> AList.update n e m)
       [] elements"

text \<open>\<^verbatim>\<open>", ".join(names)\<close>.\<close>

fun join_comma :: "string list \<Rightarrow> string" where
  "join_comma [] = []"
| "join_comma [s] = s"
| "join_comma (s # t # ss) = s @ '', '' @ join_comma (t # ss)"

text \<open>\<^verbatim>\<open>m.get(key)\<close> on one of these dictionaries, for a key that is a JSON value: a list or
  a dict cannot be hashed, and only a string can be among the keys.\<close>

fun map_get :: "(string \<times> int) list \<Rightarrow> json \<Rightarrow> exn + int option" where
  "map_get m (JStr k) = Inr (map_of m k)"
| "map_get m (JArr xs) = Inl (TypeError (''unhashable type: '' @ quoted ''list''))"
| "map_get m (JObj kvs) = Inl (TypeError (''unhashable type: '' @ quoted ''dict''))"
| "map_get m v = Inr None"

text \<open>The level of an element: the one named, or the lowest one (the first of the lowest in
  the dictionary's order; \<^verbatim>\<open>sorted\<close> is stable).\<close>

definition find_level ::
  "'d host \<Rightarrow> rt \<Rightarrow> nat \<Rightarrow> (string \<times> int) list \<Rightarrow> json \<Rightarrow> 'd \<Rightarrow> int step \<times> 'd" where
  "find_level h r idx level_map elem d =
     tbind (of_sum (py_get elem ''level_name'' JNull), d) (\<lambda>level_name d.
       if truthy level_name then
         tbind (of_sum (map_get level_map level_name), d) (\<lambda>level d.
           case level of
             None \<Rightarrow>
               (Skip (''Element '' @ show_nat idx @ '': Level '' @ quoted (py_str r level_name) @
                      '' not found. Available levels: '' @ join_comma (sort (map fst level_map))), d)
           | Some lv \<Rightarrow> (Ok lv, d))
       else
         (case sort_key (level_elevation h d) (map snd level_map) of
            [] \<Rightarrow> (Raise (IndexError ''list index out of range''), d)
          | lv # _ \<Rightarrow> (Ok lv, d)))"

text \<open>The type of an element: the one named, or the first of the dictionary. \<open>kind\<close>,
  \<open>available\<close> and \<open>none_available\<close> are the words in which the four uses differ.\<close>

definition find_type ::
  "rt \<Rightarrow> nat \<Rightarrow> string \<Rightarrow> string \<Rightarrow> string \<Rightarrow> (string \<times> int) list \<Rightarrow> json \<Rightarrow> 'd \<Rightarrow> int step \<times> 'd" where
  "find_type r idx kind available none_available type_map elem d =
     tbind (of_sum (py_get elem ''type_name'' JNull), d) (\<lambda>type_name d.
       if truthy type_name then
         tbind (of_sum (map_get type_map type_name), d) (\<lambda>ty d.
           case ty of
             None \<Rightarrow>
               (Skip (''Element '' @ show_nat idx @ '': '' @ kind @ '' type '' @
                      quoted (py_str r type_name) @ '' not found. '' @ available @
                      join_comma (take 10 (sort (map fst type_map)))), d)
           | Some t \<Rightarrow> (Ok t, d))
       else
         (case type_map of
            [] \<Rightarrow> (Skip (''Element '' @ show_nat idx @ '': '' @ none_available), d)
          | kv # _ \<Rightarrow> (Ok (snd kv), d)))"

text \<open>An end point of a line, from millimetres to feet: \<^verbatim>\<open>x\<close> and \<^verbatim>\<open>y\<close> are required,
  \<^verbatim>\<open>z\<close> is 0 when absent.\<close>

definition line_point :: "rt \<Rightarrow> json \<Rightarrow> exn + xyz" where
  "line_point r p =
     ebind (ebind (py_item p ''x'') (py_float r)) (\<lambda>x.
     ebind (ebind (py_item p ''y'') (py_float r)) (\<lambda>y.
     ebind (ebind (py_get p ''z'' (JInt 0)) (py_float r)) (\<lambda>z.
       Inr (x / 304.8, y / 304.8, z / 304.8))))"

text \<open>\<^verbatim>\<open>p.DistanceTo(q)\<close>, the Euclidean distance.\<close>

definition distance_to :: "xyz \<Rightarrow> xyz \<Rightarrow> real" where
  "distance_to p q =
     (case p of (px, py, pz) \<Rightarrow> case q of (qx, qy, qz) \<Rightarrow>
        sqrt ((px - qx)\<^sup>2 + (py - qy)\<^sup>2 + (pz - qz)\<^sup>2))"

text \<open>\<^verbatim>\<open>DB.Line.CreateBound(p, q)\<close>.\<close>

definition line_create_bound :: "'d host \<Rightarrow> xyz \<Rightarrow> xyz \<Rightarrow> exn + line" where
  "line_create_bound h p q = (case create_bound h p q of Some e \<Rightarrow> Inl e | None \<Rightarrow> Inr (p, q))"

text \<open>\<^verbatim>\<open>bool(v)\<close>.\<close>

definition py_bool :: "json \<Rightarrow> bool" where
  "py_bool v = truthy v"

definition wall_item ::
  "'d host \<Rightarrow> rt \<Rightarrow> nat \<Rightarrow> (string \<times> int) list \<Rightarrow> json \<Rightarrow> line \<Rightarrow> int \<Rightarrow> 'd \<Rightarrow> json step \<times> 'd" where
  "wall_item h r idx wall_type_map elem line level d =
     tbind (find_type r idx ''Wall'' ''Available types: ''
              (''No wall types available '' @ em_dash @ '' load wall families into the project'')
              wall_type_map elem d) (\<lambda>wall_type d.
     tbind (of_sum (ebind (py_get elem ''height'' (JInt 3000)) (py_float r)), d) (\<lambda>height_mm d.
     tbind (of_sum (ebind (py_get elem ''offset'' (JInt 0)) (py_float r)), d) (\<lambda>offset_mm d.
     tbind (of_sum (py_get elem ''structural'' (JBool False)), d) (\<lambda>structural d.
     tbind (run (wall_create h line wall_type level (height_mm / 304.8) (offset_mm / 304.8)
                  (py_bool structural) d)) (\<lambda>wall d.
     tbind (of_sum (py_get elem ''name'' (JStr [])), d) (\<lambda>name d.
     tbind (of_sum (get_element_name h d wall_type), d) (\<lambda>type_name d.
     tbind (of_sum (get_element_name h d level), d) (\<lambda>level_name d.
       (Ok (JObj [(''id'', JInt (get_element_id_value wall)),
                  (''name'', name),
                  (''type'', JStr type_name),
                  (''level'', JStr level_name),
                  (''element_type'', JStr ''wall'')]), d)))))))))"

definition beam_item ::
  "'d host \<Rightarrow> rt \<Rightarrow> nat \<Rightarrow> (string \<times> int) list \<Rightarrow> json \<Rightarrow> line \<Rightarrow> int \<Rightarrow> 'd \<Rightarrow> json step \<times> 'd" where
  "beam_item h r idx beam_type_map elem line level d =
     tbind (find_type r idx ''Beam'' ''Available types: ''
              (''No beam types available '' @ em_dash @ '' load structural framing families'')
              beam_type_map elem d) (\<lambda>beam_type d.
     tbind (if \<not> is_active h d beam_type then
              tbind (run (activate h beam_type d)) (\<lambda>_ d. run (regenerate h d))
            else (Ok (), d)) (\<lambda>_ d.
     tbind (run (new_beam h line beam_type (Some level) d)) (\<lambda>beam d.
     tbind (of_sum (py_get elem ''name'' (JStr [])), d) (\<lambda>name d.
     tbind (of_sum (get_element_name h d beam_type), d) (\<lambda>type_name d.
     tbind (of_sum (get_element_name h d level), d) (\<lambda>level_name d.
       (Ok (JObj [(''id'', JInt (get_element_id_value beam)),
                  (''name'', name),
                  (''type'', JStr type_name),
                  (''level'', JStr level_name),
                  (''element_type'', JStr ''beam'')]), d)))))))"

definition line_item ::
  "'d host \<Rightarrow> rt \<Rightarrow> (string \<times> int) list \<Rightarrow> (string \<times> int) list \<Rightarrow> (string \<times> int) list \<Rightarrow>
   nat \<Rightarrow> json \<Rightarrow> 'd \<Rightarrow> json step \<times> 'd" where
  "line_item h r level_map wall_type_map beam_type_map idx elem d =
     tbind (of_sum (py_get elem ''element_type'' JNull), d) (\<lambda>element_type d.
       if \<not> truthy element_type then
         (Skip (''Element '' @ show_nat idx @ '': element_type is required''), d)
       else
     tbind (of_sum (py_get elem ''start_point'' JNull), d) (\<lambda>start_point d.
     tbind (of_sum (py_get elem ''end_point'' JNull), d) (\<lambda>end_point d.
       if \<not> truthy start_point \<or> \<not> truthy end_point then
         (Skip (''Element '' @ show_nat idx @ '': start_point and end_point are required''), d)
       else
     tbind (of_sum (line_point r start_point), d) (\<lambda>sp d.
     tbind (of_sum (line_point r end_point), d) (\<lambda>ep d.
       if distance_to sp ep < 0.001 then
         (Skip (''Element '' @ show_nat idx @
                '': Start and end points must be different (zero-length element)''), d)
       else
     tbind (of_sum (line_create_bound h sp ep), d) (\<lambda>line d.
     tbind (find_level h r idx level_map elem d) (\<lambda>level d.
       if element_type = JStr ''wall'' then wall_item h r idx wall_type_map elem line level d
       else if element_type = JStr ''beam'' then beam_item h r idx beam_type_map elem line level d
       else
         (Skip (''Element '' @ show_nat idx @ '': element_type '' @ quoted (py_str r element_type) @
                '' not supported '' @ em_dash @ '' use '' @ quoted ''wall'' @ '' or '' @
                quoted ''beam''), d))))))))"

definition no_elements_provided :: response where
  "no_elements_provided =
     make_response
       [(''error'', JStr (''No elements provided '' @ em_dash @ '' pass an array of element definitions''))]
       400"

definition create_line_body :: "'d host \<Rightarrow> rt \<Rightarrow> 'd \<Rightarrow> request \<Rightarrow> (exn + response) \<times> 'd" where
  "create_line_body h r d req =
     (if \<not> has_doc h d then (Inr no_document_2026, d)
      else case ebind (load_data r req) (\<lambda>data. py_get data ''elements'' (JArr [])) of
        Inl e \<Rightarrow> (Inl e, d)
      | Inr elements \<Rightarrow>
          if \<not> truthy elements then (Inr no_elements_provided, d)
          else
            (let level_map = name_map h d (doc_levels h d) in
             if level_map = [] then
               (Inr (make_response
                  [(''error'', JStr (''No levels found in the project '' @ em_dash @ '' create levels first''))]
                  404), d)
             else
               (let wall_type_map = name_map h d (doc_wall_types h d);
                    beam_type_map = name_map h d (doc_beam_types h d)
                in batch_transaction h ''Create Line-Based Elements'' ''Element'' ''element''
                     (line_item h r level_map wall_type_map beam_type_map) elements d)))"

definition create_line_based :: "'d host \<Rightarrow> rt \<Rightarrow> 'd \<Rightarrow> request \<Rightarrow> response \<times> 'd" where
  "create_line_based h r d req =
     (case create_line_body h r d req of
        (Inr resp, d') \<Rightarrow> (resp, d')
      | (Inl e, d') \<Rightarrow> (error_500 r e, d'))"

subsection \<open>/create\_surface/\<close>

text \<open>
  The items \<^verbatim>\<open>boundary[0]\<close>, \<^verbatim>\<open>boundary[1]\<close>, ... of a boundary whose length has been
  taken: the elements of a list, the characters of a string; a dict has no item 0.
\<close>

fun boundary_items :: "json \<Rightarrow> exn + json list" where
  "boundary_items (JArr xs) = Inr xs"
| "boundary_items (JStr s) = Inr (map (\<lambda>c. JStr [c]) s)"
| "boundary_items (JObj kvs) = Inl (KeyError ''0'')"
| "boundary_items v = Inl (TypeError (quoted (class_name v) @ '' object is not subscriptable''))"

text \<open>\<^verbatim>\<open>"x" in boundary[0] or "y" in boundary[0]\<close>.\<close>

definition is_point_format :: "json \<Rightarrow> exn + bool" where
  "is_point_format first = ebind (py_in ''x'' first) (\<lambda>b. if b then Inr True else py_in ''y'' first)"

text \<open>The conversion of a point array: one segment per point, from the point to the next
  one, the last back to the first.\<close>

definition points_to_segments :: "json list \<Rightarrow> json list" where
  "points_to_segments points =
     map (\<lambda>i. JObj [(''p0'', points ! i), (''p1'', points ! ((i + 1) mod length points))])
       [0..<length points]"

text \<open>\<^verbatim>\<open>(float(p.get("x", 0)), float(p.get("y", 0)), float(p.get("z", 0)))\<close>.\<close>

definition point3 :: "rt \<Rightarrow> json \<Rightarrow> exn + xyz" where
  "point3 r p =
     ebind (ebind (py_get p ''x'' (JInt 0)) (py_float r)) (\<lambda>x.
     ebind (ebind (py_get p ''y'' (JInt 0)) (py_float r)) (\<lambda>y.
     ebind (ebind (py_get p ''z'' (JInt 0)) (py_float r)) (\<lambda>z.
       Inr (x, y, z))))"

text \<open>The first point of the first segment and the last point of the last one, in
  millimetres. The boundary has at least three items here.\<close>

definition boundary_ends :: "rt \<Rightarrow> json list \<Rightarrow> exn + xyz \<times> xyz" where
  "boundary_ends r boundary =
     (case boundary of
        [] \<Rightarrow> Inl (IndexError ''list index out of range'')
      | first # _ \<Rightarrow>
          ebind (py_get first ''p0'' (JObj [])) (\<lambda>first_p0.
          ebind (py_get (last boundary) ''p1'' (JObj [])) (\<lambda>last_p1.
          ebind (point3 r first_p0) (\<lambda>fp.
          ebind (point3 r last_p1) (\<lambda>lp. Inr (fp, lp))))))"

definition show_point :: "rt \<Rightarrow> xyz \<Rightarrow> string" where
  "show_point r p =
     (case p of (x, y, z) \<Rightarrow>
        ''('' @ py_str r (JNum x) @ '', '' @ py_str r (JNum y) @ '', '' @ py_str r (JNum z) @ '')'')"

text \<open>The check that the polygon is closed, with a tolerance of 1 mm.\<close>

definition closed_check :: "rt \<Rightarrow> nat \<Rightarrow> json list \<Rightarrow> unit step" where
  "closed_check r idx boundary =
     (case boundary_ends r boundary of
        Inl e \<Rightarrow> Raise e
      | Inr (fp, lp) \<Rightarrow>
          if distance_to fp lp > 1.0 then
            Skip (''Element '' @ show_nat idx @ '': Boundary must form a closed polygon '' @ em_dash @
                  '' last point '' @ show_point r lp @ '' does not match first point '' @
                  show_point r fp)
          else Ok ())"

text \<open>A point of a segment, from millimetres to feet.\<close>

definition seg_point :: "rt \<Rightarrow> json \<Rightarrow> exn + xyz" where
  "seg_point r p =
     ebind (point3 r p) (\<lambda>(x, y, z). Inr (x / 304.8, y / 304.8, z / 304.8))"

definition seg_line :: "'d host \<Rightarrow> rt \<Rightarrow> json \<Rightarrow> exn + line" where
  "seg_line h r seg =
     ebind (py_get seg ''p0'' (JObj [])) (\<lambda>p0.
     ebind (py_get seg ''p1'' (JObj [])) (\<lambda>p1.
     ebind (seg_point r p0) (\<lambda>s.
     ebind (seg_point r p1) (\<lambda>e. line_create_bound h s e))))"

text \<open>The \<^verbatim>\<open>CurveLoop\<close> of a floor: the host may refuse a line that does not continue the
  loop.\<close>

fun build_loop :: "'d host \<Rightarrow> rt \<Rightarrow> json list \<Rightarrow> line list \<Rightarrow> exn + line list" where
  "build_loop h r [] curve_loop = Inr curve_loop"
| "build_loop h r (seg # rest) curve_loop =
     ebind (seg_line h r seg) (\<lambda>line.
       case loop_append h curve_loop line of
         Some e \<Rightarrow> Inl e
       | None \<Rightarrow> build_loop h r rest (curve_loop @ [line]))"

text \<open>The \<^verbatim>\<open>CurveArray\<close> of a roof.\<close>

fun build_array :: "'d host \<Rightarrow> rt \<Rightarrow> json list \<Rightarrow> line list \<Rightarrow> exn + line list" where
  "build_array h r [] curve_array = Inr curve_array"
| "build_array h r (seg # rest) curve_array =
     ebind (seg_line h r seg) (\<lambda>line. build_array h r rest (curve_array @ [line]))"

definition apply_offset :: "'d host \<Rightarrow> int \<Rightarrow> real \<Rightarrow> 'd \<Rightarrow> unit step \<times> 'd" where
  "apply_offset h new_floor offset_mm d =
     (if offset_mm \<noteq> 0 then
        (case floor_offset_param h d new_floor of
           Some read_only \<Rightarrow>
             if \<not> read_only then run (set_floor_offset h new_floor (offset_mm / 304.8) d) else (Ok (), d)
         | None \<Rightarrow> (Ok (), d))
      else (Ok (), d))"

definition floor_item ::
  "'d host \<Rightarrow> rt \<Rightarrow> nat \<Rightarrow> (string \<times> int) list \<Rightarrow> json \<Rightarrow> json \<Rightarrow> json list \<Rightarrow> int \<Rightarrow> 'd \<Rightarrow>
   json step \<times> 'd" where
  "floor_item h r idx floor_type_map elem element_type boundary level d =
     tbind (find_type r idx ''Floor'' ''Available: ''
              (''No floor types available '' @ em_dash @ '' load floor families'')
              floor_type_map elem d) (\<lambda>floor_type d.
     tbind (of_sum (build_loop h r boundary []), d) (\<lambda>curve_loop d.
     tbind (run (floor_create h curve_loop floor_type level d)) (\<lambda>new_floor d.
     tbind (of_sum (ebind (py_get elem ''offset'' (JInt 0)) (py_float r)), d) (\<lambda>offset_mm d.
     tbind (apply_offset h new_floor offset_mm d) (\<lambda>_ d.
     tbind (of_sum (py_get elem ''name'' (JStr [])), d) (\<lambda>name d.
     tbind (of_sum (get_element_name h d floor_type), d) (\<lambda>type_name d.
     tbind (of_sum (get_element_name h d level), d) (\<lambda>level_name d.
       (Ok (JObj [(''id'', JInt (get_element_id_value new_floor)),
                  (''name'', name),
                  (''type'', JStr type_name),
                  (''level'', JStr level_name),
                  (''element_type'', element_type)]), d)))))))))"

definition roof_item ::
  "'d host \<Rightarrow> rt \<Rightarrow> nat \<Rightarrow> (string \<times> int) list \<Rightarrow> json \<Rightarrow> json list \<Rightarrow> int \<Rightarrow> 'd \<Rightarrow>
   json step \<times> 'd" where
  "roof_item h r idx roof_type_map elem boundary level d =
     tbind (find_type r idx ''Roof'' ''Available: ''
              (''No roof types available '' @ em_dash @ '' load roof families'')
              roof_type_map elem d) (\<lambda>roof_type d.
     tbind (of_sum (build_array h r boundary []), d) (\<lambda>curve_array d.
     tbind (run (new_footprint_roof h curve_array level roof_type d)) (\<lambda>roof d.
     tbind (of_sum (py_get elem ''name'' (JStr [])), d) (\<lambda>name d.
     tbind (of_sum (get_element_name h d roof_type), d) (\<lambda>type_name d.
     tbind (of_sum (get_element_name h d level), d) (\<lambda>level_name d.
       (Ok (JObj [(''id'', JInt (get_element_id_value roof)),
                  (''name'', name),
                  (''type'', JStr type_name),
                  (''level'', JStr level_name),
                  (''element_type'', JStr ''roof'')]), d)))))))"

text \<open>The boundary of an element as the handler goes on with it: a point array is
  converted, anything else is taken as segments.\<close>

definition read_boundary :: "nat \<Rightarrow> json \<Rightarrow> json list step" where
  "read_boundary idx elem =
     (case ebind (py_get elem ''boundary'' (JArr [])) (\<lambda>boundary.
             ebind (py_len boundary) (\<lambda>n. Inr (boundary, n))) of
        Inl e \<Rightarrow> Raise e
      | Inr (boundary, n) \<Rightarrow>
          if n < 3 then
            Skip (''Element '' @ show_nat idx @ '': Boundary requires at least 3 points/segments, got '' @
                  show_nat n)
          else
            of_sum (ebind (boundary_items boundary) (\<lambda>items.
              case items of
                [] \<Rightarrow> Inl (IndexError ''list index out of range'')
              | first # _ \<Rightarrow>
                  ebind (is_point_format first) (\<lambda>points.
                    Inr (if points then points_to_segments items else items)))))"

definition surface_item ::
  "'d host \<Rightarrow> rt \<Rightarrow> (string \<times> int) list \<Rightarrow> (string \<times> int) list \<Rightarrow> (string \<times> int) list \<Rightarrow>
   nat \<Rightarrow> json \<Rightarrow> 'd \<Rightarrow> json step \<times> 'd" where
  "surface_item h r level_map floor_type_map roof_type_map idx elem d =
     tbind (of_sum (py_get elem ''element_type'' JNull), d) (\<lambda>element_type d.
       if \<not> truthy element_type then
         (Skip (''Element '' @ show_nat idx @ '': element_type is required''), d)
       else if element_type \<notin> {JStr ''floor'', JStr ''roof'', JStr ''ceiling''} then
         (Skip (''Element '' @ show_nat idx @ '': element_type must be '' @ quoted ''floor'' @ '', '' @
                quoted ''roof'' @ '', or '' @ quoted ''ceiling''), d)
       else
     tbind (read_boundary idx elem, d) (\<lambda>boundary d.
     tbind (closed_check r idx boundary, d) (\<lambda>_ d.
     tbind (find_level h r idx level_map elem d) (\<lambda>level d.
       if element_type = JStr ''floor'' \<or> element_type = JStr ''ceiling'' then
         floor_item h r idx floor_type_map elem element_type boundary level d
       else roof_item h r idx roof_type_map elem boundary level d))))"

definition create_surface_body :: "'d host \<Rightarrow> rt \<Rightarrow> 'd \<Rightarrow> request \<Rightarrow> (exn + response) \<times> 'd" where
  "create_surface_body h r d req =
     (if \<not> has_doc h d then (Inr no_document_2026, d)
      else case ebind (load_data r req) (\<lambda>data. py_get data ''elements'' (JArr [])) of
        Inl e \<Rightarrow> (Inl e, d)
      | Inr elements \<Rightarrow>
          if \<not> truthy elements then (Inr no_elements_provided, d)
          else
            (let level_map = name_map h d (doc_levels h d) in
             if level_map = [] then
               (Inr (make_response
                  [(''error'', JStr (''No levels found '' @ em_dash @ '' create levels first''))]
                  404), d)
             else
               (let floor_type_map = name_map h d (doc_floor_types h d);
                    roof_type_map = name_map h d (doc_roof_types h d)
                in batch_transaction h ''Create Surface-Based Elements'' ''Element'' ''element''
                     (surface_item h r level_map floor_type_map roof_type_map) elements d)))"

definition create_surface_based :: "'d host \<Rightarrow> rt \<Rightarrow> 'd \<Rightarrow> request \<Rightarrow> response \<times> 'd" where
  "create_surface_based h r d req =
     (case create_surface_body h r d req of
        (Inr resp, d') \<Rightarrow> (resp, d')
      | (Inl e, d') \<Rightarrow> (error_500 r e, d'))"

section \<open>structure.py: /create\_grid/\<close>

text \<open>A point with every coordinate 0 when absent, from millimetres to feet:
  \<^verbatim>\<open>DB.XYZ(float(p.get("x", 0)) * MM_TO_FEET, ...)\<close>.\<close>

definition feet_point :: "rt \<Rightarrow> json \<Rightarrow> exn + xyz" where
  "feet_point r p =
     ebind (point3 r p) (\<lambda>(x, y, z). Inr (x * MM_TO_FEET, y * MM_TO_FEET, z * MM_TO_FEET))"

text \<open>\<^verbatim>\<open>grid.Name = name\<close> inside its own \<^verbatim>\<open>try\<close>: an exception is logged and dropped. A
  name that is no string cannot be assigned to the host's property.\<close>

definition try_set_grid_name :: "'d host \<Rightarrow> int \<Rightarrow> json \<Rightarrow> 'd \<Rightarrow> 'd" where
  "try_set_grid_name h grid name d =
     (if truthy name then
        (case name of
           JStr s \<Rightarrow> snd (set_name h grid s d)
         | _ \<Rightarrow> d)
      else d)"

text \<open>One grid definition. \<open>Skip\<close> is the \<^verbatim>\<open>continue\<close> after the logged warning; nothing is
  recorded for it.\<close>

definition grid_item :: "'d host \<Rightarrow> rt \<Rightarrow> nat \<Rightarrow> json \<Rightarrow> 'd \<Rightarrow> json step \<times> 'd" where
  "grid_item h r i grid_def d =
     tbind (of_sum (py_get grid_def ''start_point'' (JObj [])), d) (\<lambda>sp d.
     tbind (of_sum (py_get grid_def ''end_point'' (JObj [])), d) (\<lambda>ep d.
     tbind (of_sum (py_get grid_def ''name'' JNull), d) (\<lambda>name d.
     tbind (of_sum (feet_point r sp), d) (\<lambda>start d.
     tbind (of_sum (feet_point r ep), d) (\<lambda>end_point d.
       if distance_to start end_point < 0.001 then
         (Skip (''Grid '' @ show_nat i @ '' has zero length, skipping''), d)
       else
     tbind (of_sum (line_create_bound h start end_point), d) (\<lambda>line d.
     tbind (run (grid_create h line d)) (\<lambda>grid d.
     tbind (Ok (), try_set_grid_name h grid name d) (\<lambda>_ d.
     tbind (of_sum (get_element_name h d grid), d) (\<lambda>grid_name d.
       (Ok (JObj [(''id'', JInt (get_element_id_value grid)), (''name'', JStr grid_name)]), d))))))))))"

text \<open>The loop has no \<^verbatim>\<open>try\<close> of its own: an exception ends it.\<close>

fun grid_loop ::
  "(nat \<Rightarrow> json \<Rightarrow> 'd \<Rightarrow> json step \<times> 'd) \<Rightarrow> nat \<Rightarrow> json list \<Rightarrow> json list \<Rightarrow> 'd \<Rightarrow>
   (exn + json list) \<times> 'd" where
  "grid_loop item i [] created d = (Inr created, d)"
| "grid_loop item i (grid_def # rest) created d =
     (case item i grid_def d of
        (Ok entry, d') \<Rightarrow> grid_loop item (Suc i) rest (created @ [entry]) d'
      | (Skip warning, d') \<Rightarrow> grid_loop item (Suc i) rest created d'
      | (Raise e, d') \<Rightarrow> (Inl e, d'))"

definition grid_success :: "json list \<Rightarrow> response" where
  "grid_success created =
     ok_response
       [(''status'', JStr ''success''),
        (''created'', JArr created),
        (''count'', JInt (int (length created))),
        (''message'', JStr (''Created '' @ show_nat (length created) @ '' grid line'' @
                            plural (length created)))]"

definition grid_try :: "'d host \<Rightarrow> rt \<Rightarrow> json \<Rightarrow> 'd \<Rightarrow> (exn + response) \<times> 'd" where
  "grid_try h r grids d =
     sbind (case py_iter grids of
              Inl e \<Rightarrow> (Inl e, d)
            | Inr gs \<Rightarrow> grid_loop (grid_item h r) 0 gs [] d) (\<lambda>created d'.
       sbind (tx_commit h d') (\<lambda>_ d''. (Inr (grid_success created), d'')))"

definition grid_transaction :: "'d host \<Rightarrow> rt \<Rightarrow> json \<Rightarrow> 'd \<Rightarrow> (exn + response) \<times> 'd" where
  "grid_transaction h r grids d =
     (case grid_try h r grids d of
        (Inr resp, d') \<Rightarrow> (Inr resp, d')
      | (Inl tx_error, d') \<Rightarrow>
          sbind (rollback_if_active h d') (\<lambda>_ d''. (Inl tx_error, d'')))"

definition create_grid_body :: "'d host \<Rightarrow> rt \<Rightarrow> 'd \<Rightarrow> request \<Rightarrow> (exn + response) \<times> 'd" where
  "create_grid_body h r d req =
     (if \<not> has_doc h d then
        (Inr (make_response [(''error'', JStr ''No active Revit document'')] 503), d)
      else if no_request_data req then
        (Inr (make_response [(''error'', JStr ''No data provided'')] 400), d)
      else case ebind (load_data r req) (\<lambda>data. py_get data ''grids'' (JArr [])) of
        Inl e \<Rightarrow> (Inl e, d)
      | Inr grids \<Rightarrow>
          if \<not> truthy grids then
            (Inr (make_response [(''error'', JStr ''No grids provided'')] 400), d)
          else
            sbind (tx_start h ''Create Grids via MCP'' d) (\<lambda>_ d'. grid_transaction h r grids d'))"

definition create_grid_handler :: "'d host \<Rightarrow> rt \<Rightarrow> 'd \<Rightarrow> request \<Rightarrow> response \<times> 'd" where
  "create_grid_handler h r d req =
     (case create_grid_body h r d req of
        (Inr resp, d') \<Rightarrow> (resp, d')
      | (Inl e, d') \<Rightarrow> (error_500 r e, d'))"

section \<open>rooms.py: /create\_room/\<close>

text \<open>The first level whose name is the one asked for.\<close>

fun find_named :: "'d host \<Rightarrow> 'd \<Rightarrow> json \<Rightarrow> int list \<Rightarrow> exn + int option" where
  "find_named h d level_name [] = Inr None"
| "find_named h d level_name (lv # rest) =
     ebind (get_element_name h d lv) (\<lambda>n.
       if JStr n = level_name then Inr (Some lv) else find_named h d level_name rest)"

text \<open>\<^verbatim>\<open>[get_element_name(lv) for lv in levels]\<close>.\<close>

fun element_names :: "'d host \<Rightarrow> 'd \<Rightarrow> int list \<Rightarrow> exn + string list" where
  "element_names h d [] = Inr []"
| "element_names h d (lv # rest) =
     ebind (get_element_name h d lv) (\<lambda>n. ebind (element_names h d rest) (\<lambda>ns. Inr (n # ns)))"

text \<open>The room: at the location when one is given, unplaced otherwise.\<close>

definition new_room :: "'d host \<Rightarrow> rt \<Rightarrow> json \<Rightarrow> int \<Rightarrow> int \<Rightarrow> 'd \<Rightarrow> (exn + int option) \<times> 'd" where
  "new_room h r data target_level phase d =
     sbind (py_get data ''location'' JNull, d) (\<lambda>location d.
       if truthy location then
         sbind (ebind (ebind (py_get location ''x'' (JInt 0)) (py_float r)) (\<lambda>x.
                ebind (ebind (py_get location ''y'' (JInt 0)) (py_float r)) (\<lambda>y.
                  Inr (x * MM_TO_FEET, y * MM_TO_FEET))), d) (\<lambda>point d.
           new_room_at h target_level point d)
       else new_room_phase h phase d)"

text \<open>\<^verbatim>\<open>Name\<close> and \<^verbatim>\<open>Number\<close>: set when given, when the room has the parameter and it can be
  written.\<close>

definition set_if_given :: "'d host \<Rightarrow> json \<Rightarrow> int \<Rightarrow> string \<Rightarrow> string \<Rightarrow> 'd \<Rightarrow> (exn + unit) \<times> 'd" where
  "set_if_given h data room key pname d =
     sbind (py_get data key JNull, d) (\<lambda>v d.
       if truthy v then
         sbind (lookup_parameter h d room pname, d) (\<lambda>p d.
           case p of
             None \<Rightarrow> (Inr (), d)
           | Some q \<Rightarrow> if \<not> is_read_only q then set_parameter h room pname v d else (Inr (), d))
       else (Inr (), d))"

text \<open>The area reported for the new room, in square metres; 0 when it cannot be read.\<close>

definition room_area :: "'d host \<Rightarrow> 'd \<Rightarrow> int \<Rightarrow> real" where
  "room_area h d room =
     (case lookup_parameter h d room ''Area'' of
        Inr (Some area_param) \<Rightarrow>
          if has_value area_param then
            (case as_double area_param of
               Inr a \<Rightarrow> py_round (a * 0.092903) 2
             | Inl _ \<Rightarrow> 0)
          else 0
      | _ \<Rightarrow> 0)"

text \<open>\<^verbatim>\<open>p.AsString() or ""\<close> of the named parameter; the empty string when it cannot be
  read.\<close>

definition room_text :: "'d host \<Rightarrow> 'd \<Rightarrow> int \<Rightarrow> string \<Rightarrow> string" where
  "room_text h d room pname =
     (case lookup_parameter h d room pname of
        Inr (Some p) \<Rightarrow>
          (case as_string p of
             Inr (Some s) \<Rightarrow> s
           | _ \<Rightarrow> [])
      | _ \<Rightarrow> [])"

definition room_success :: "'d host \<Rightarrow> rt \<Rightarrow> 'd \<Rightarrow> int \<Rightarrow> json \<Rightarrow> response" where
  "room_success h r d room level_name =
     (let area = room_area h d room;
          actual_name = room_text h d room ''Name'';
          actual_number = room_text h d room ''Number''
      in ok_response
        [(''status'', JStr ''success''),
         (''room_id'', JInt (get_element_id_value room)),
         (''name'', JStr actual_name),
         (''number'', JStr actual_number),
         (''level'', level_name),
         (''area'', JNum area),
         (''message'', JStr (''Room '' @
            quoted (if actual_name \<noteq> [] then actual_name
                    else if actual_number \<noteq> [] then actual_number else ''Unnamed'') @
            '' created on level '' @ quoted (py_str r level_name)))])"

definition no_room_response :: response where
  "no_room_response =
     make_response
       [(''error'', JStr (''Failed to create room '' @ em_dash @
           '' no enclosed area found at the specified location. Add walls or room separation lines first.''))]
       500"

definition room_try ::
  "'d host \<Rightarrow> rt \<Rightarrow> json \<Rightarrow> json \<Rightarrow> int \<Rightarrow> int \<Rightarrow> 'd \<Rightarrow> (exn + response) \<times> 'd" where
  "room_try h r data level_name target_level phase d =
     sbind (new_room h r data target_level phase d) (\<lambda>room d.
       case room of
         None \<Rightarrow> sbind (tx_rollback h d) (\<lambda>_ d. (Inr no_room_response, d))
       | Some rm \<Rightarrow>
           sbind (set_if_given h data rm ''name'' ''Name'' d) (\<lambda>_ d.
           sbind (set_if_given h data rm ''number'' ''Number'' d) (\<lambda>_ d.
           sbind (tx_commit h d) (\<lambda>_ d.
             (Inr (room_success h r d rm level_name), d)))))"

definition room_transaction ::
  "'d host \<Rightarrow> rt \<Rightarrow> json \<Rightarrow> json \<Rightarrow> int \<Rightarrow> int \<Rightarrow> 'd \<Rightarrow> (exn + response) \<times> 'd" where
  "room_transaction h r data level_name target_level phase d =
     (case room_try h r data level_name target_level phase d of
        (Inr resp, d') \<Rightarrow> (Inr resp, d')
      | (Inl tx_error, d') \<Rightarrow>
          sbind (rollback_if_active h d') (\<lambda>_ d''. (Inl tx_error, d'')))"

definition create_room_body :: "'d host \<Rightarrow> rt \<Rightarrow> 'd \<Rightarrow> request \<Rightarrow> (exn + response) \<times> 'd" where
  "create_room_body h r d req =
     (if \<not> has_doc h d then
        (Inr (make_response [(''error'', JStr ''No active Revit document'')] 503), d)
      else case ebind (load_data r req) (\<lambda>data.
                  ebind (py_get data ''level_name'' JNull) (\<lambda>level_name. Inr (data, level_name))) of
        Inl e \<Rightarrow> (Inl e, d)
      | Inr (data, level_name) \<Rightarrow>
          if \<not> truthy level_name then
            (Inr (make_response [(''error'', JStr ''level_name is required'')] 400), d)
          else
            (case find_named h d level_name (doc_levels h d) of
               Inl e \<Rightarrow> (Inl e, d)
             | Inr None \<Rightarrow>
                 (case element_names h d (doc_levels h d) of
                    Inl e \<Rightarrow> (Inl e, d)
                  | Inr available \<Rightarrow>
                      (Inr (make_response
                         [(''error'', JStr (''Level '' @ quoted (py_str r level_name) @ '' not found'')),
                          (''available_levels'', JArr (map JStr available))] 404), d))
             | Inr (Some target_level) \<Rightarrow>
                 (case doc_phases h d of
                    [] \<Rightarrow>
                      (Inr (make_response [(''error'', JStr ''No phases found in the project'')] 500), d)
                  | ph # phs \<Rightarrow>
                      sbind (tx_start h ''Create Room via MCP'' d) (\<lambda>_ d'.
                        room_transaction h r data level_name target_level (last (ph # phs)) d'))))"

definition create_room_handler :: "'d host \<Rightarrow> rt \<Rightarrow> 'd \<Rightarrow> request \<Rightarrow> response \<times> 'd" where
  "create_room_handler h r d req =
     (case create_room_body h r d req of
        (Inr resp, d') \<Rightarrow> (resp, d')
      | (Inl e, d') \<Rightarrow> (error_500 r e, d'))"

section \<open>code\_execution.py: /execute\_code/\<close>

text \<open>The hints added to the error response, by the class and the text of the exception.\<close>

definition code_hints :: "string \<Rightarrow> string \<Rightarrow> string list" where
  "code_hints error_type error_msg =
     (if error_type = ''AttributeError'' then
        (if error_msg = ''Name'' \<or> is_substr ''Name'' error_msg then
           [''The '' @ quoted ''Name'' @ '' property may not be directly accessible in IronPython. '' @
            ''Try using getattr(element, '' @ quoted ''Name'' @ '', '' @ quoted ''N/A'' @ '') or '' @
            ''element.get_Parameter(DB.BuiltInParameter.ALL_MODEL_TYPE_NAME).AsString()'']
         else
           [''Some Revit API properties are not directly accessible in IronPython. '' @
            ''Try using getattr(obj, '' @ quoted ''property_name'' @
            '', default_value) for safe access.''])
      else if error_type = ''NullReferenceException'' \<or> is_substr ''NoneType'' error_msg then
        [''An object is None/null. Ensure you check if elements exist before '' @
         ''accessing their properties: '' @ quoted ''if element:'' @ '' or '' @
         quoted ''if element is not None:'']
      else if error_type = ''InvalidOperationException'' then
        [''This operation may require being inside a transaction, or the element '' @
         ''may be in a state that doesn'' @ [CHR 0x27] @ ''t allow this operation.'']
      else if is_substr ''Transaction'' error_msg \<or> is_substr ''transaction'' error_msg then
        [''Transaction error. Note that this endpoint already wraps your code '' @
         ''in a transaction. Avoid starting nested transactions.'']
      else [])"

definition code_error :: "rt \<Rightarrow> exn \<Rightarrow> json \<Rightarrow> string \<Rightarrow> response" where
  "code_error r exec_error code_to_execute partial_output =
     (let error_type = exn_type exec_error;
          error_msg = exn_msg exec_error;
          hints = code_hints error_type error_msg
      in make_response
        ([(''status'', JStr ''error''),
          (''error'', JStr (error_type @ '': '' @ error_msg)),
          (''error_type'', JStr error_type),
          (''traceback'', JStr (format_exc r exec_error)),
          (''code_attempted'', code_to_execute)]
         @ (if partial_output \<noteq> [] then [(''partial_output'', JStr partial_output)] else [])
         @ (if hints \<noteq> [] then [(''hints'', JArr (map JStr hints))] else []))
        500)"

definition code_success :: "json \<Rightarrow> json \<Rightarrow> string \<Rightarrow> response" where
  "code_success description code_to_execute output =
     ok_response
       [(''status'', JStr ''success''),
        (''description'', description),
        (''output'', JStr (if output \<noteq> [] then output
                           else ''Code executed successfully (no output)'')),
        (''code_executed'', code_to_execute)]"

text \<open>
  The handler has no check for a missing document. Both \<^verbatim>\<open>except\<close> clauses are
  \<^verbatim>\<open>except Exception\<close>: what the submitted code raises outside that class
  (\<^verbatim>\<open>sys.exit()\<close>, for one) leaves the handler, with the transaction open and no response;
  \<open>Inl e\<close> in the result of \<open>execute_code\<close> is the exception that leaves it. When
  \<^verbatim>\<open>t.Commit()\<close> raises, the \<^verbatim>\<open>except\<close> clause reads the captured output of a
  \<^verbatim>\<open>StringIO\<close> that is closed by then, which raises \<^verbatim>\<open>ValueError\<close> before the rollback is
  reached; that exception goes to the outer \<^verbatim>\<open>except\<close> clause.
\<close>

definition execute_code_body :: "'d host \<Rightarrow> rt \<Rightarrow> 'd \<Rightarrow> request \<Rightarrow> (exn + response) \<times> 'd" where
  "execute_code_body h r d req =
     (case ebind (load_data r req) (\<lambda>data.
             ebind (py_get data ''code'' (JStr [])) (\<lambda>code_to_execute.
             ebind (py_get data ''description'' (JStr ''Code execution'')) (\<lambda>description.
               Inr (code_to_execute, description)))) of
        Inl e \<Rightarrow> (Inl e, d)
      | Inr (code_to_execute, description) \<Rightarrow>
          if \<not> truthy code_to_execute then
            (Inr (make_response [(''error'', JStr ''No code provided'')] 400), d)
          else
            sbind (tx_start h (''MCP Code Execution: '' @ py_str r description) d) (\<lambda>_ d0.
              case exec_code h code_to_execute d0 of
                ((Inr _, output), d1) \<Rightarrow>
                  (case tx_commit h d1 of
                     (Inr _, d2) \<Rightarrow> (Inr (code_success description code_to_execute output), d2)
                   | (Inl commit_error, d2) \<Rightarrow>
                       if is_exception r commit_error then
                         (Inl (ValueError ''I/O operation on closed file''), d2)
                       else (Inl commit_error, d2))
              | ((Inl exec_error, partial_output), d1) \<Rightarrow>
                  if is_exception r exec_error then
                    sbind (rollback_if_active h d1) (\<lambda>_ d2.
                      (Inr (code_error r exec_error code_to_execute partial_output), d2))
                  else (Inl exec_error, d1)))"

text \<open>The outermost \<^verbatim>\<open>except Exception\<close> clause of this handler returns the text of the
  exception only.\<close>

definition execute_code :: "'d host \<Rightarrow> rt \<Rightarrow> 'd \<Rightarrow> request \<Rightarrow> (exn + response) \<times> 'd" where
  "execute_code h r d req =
     (case execute_code_body h r d req of
        (Inr resp, d') \<Rightarrow> (Inr resp, d')
      | (Inl e, d') \<Rightarrow>
          if is_exception r e then (Inr (make_response [(''error'', JStr (exn_msg e))] 500), d')
          else (Inl e, d'))"

section \<open>view\_management.py: /create\_view/ and /set\_active\_view/\<close>

text \<open>
  /create\_view/ is modelled up to the lookup of the level of a plan view: the checks of
  the request, the start of the transaction, the lookup and its 404 response, and the two
  \<^verbatim>\<open>except\<close> clauses. What the handler does after that inside the \<^verbatim>\<open>try\<close> block (the view
  family types, the creation of the view, its name, the commit and the success response,
  and the branches of the other view types) is the parameter \<open>rest\<close>: it is given the
  data of the request, the view type, the name, the level found (\<open>None\<close> for a view type
  that needs no level) and the state, and may answer or raise like the block it stands
  for.
\<close>

definition create_view_try ::
  "'d host \<Rightarrow> rt \<Rightarrow> (json \<Rightarrow> json \<Rightarrow> json \<Rightarrow> int option \<Rightarrow> 'd \<Rightarrow> (exn + response) \<times> 'd) \<Rightarrow>
   json \<Rightarrow> json \<Rightarrow> json \<Rightarrow> json \<Rightarrow> 'd \<Rightarrow> (exn + response) \<times> 'd" where
  "create_view_try h r rest data vtype name level_name d =
     (if vtype \<in> {JStr ''floor_plan'', JStr ''ceiling_plan''} then
        if \<not> truthy level_name then
          sbind (tx_rollback h d) (\<lambda>_ d'.
            (Inr (make_response
               [(''error'', JStr (''level_name is required for '' @ py_str r vtype @ '' views''))]
               400), d'))
        else
          (let levels = doc_levels h d in
           case find_named h d level_name levels of
             Inl e \<Rightarrow> (Inl e, d)
           | Inr None \<Rightarrow>
               sbind (tx_rollback h d) (\<lambda>_ d'.
                 case element_names h d' levels of
                   Inl e \<Rightarrow> (Inl e, d')
                 | Inr available \<Rightarrow>
                     (Inr (make_response
                        [(''error'', JStr (''Level '' @ quoted (py_str r level_name) @ '' not found'')),
                         (''available_levels'', JArr (map JStr available))] 404), d'))
           | Inr (Some target_level) \<Rightarrow> rest data vtype name (Some target_level) d)
      else rest data vtype name None d)"

definition create_view_transaction ::
  "'d host \<Rightarrow> rt \<Rightarrow> (json \<Rightarrow> json \<Rightarrow> json \<Rightarrow> int option \<Rightarrow> 'd \<Rightarrow> (exn + response) \<times> 'd) \<Rightarrow>
   json \<Rightarrow> json \<Rightarrow> json \<Rightarrow> json \<Rightarrow> 'd \<Rightarrow> (exn + response) \<times> 'd" where
  "create_view_transaction h r rest data vtype name level_name d =
     (case create_view_try h r rest data vtype name level_name d of
        (Inr resp, d') \<Rightarrow> (Inr resp, d')
      | (Inl tx_error, d') \<Rightarrow>
          sbind (rollback_if_active h d') (\<lambda>_ d''. (Inl tx_error, d'')))"

definition create_view_body ::
  "'d host \<Rightarrow> rt \<Rightarrow> (json \<Rightarrow> json \<Rightarrow> json \<Rightarrow> int option \<Rightarrow> 'd \<Rightarrow> (exn + response) \<times> 'd) \<Rightarrow>
   'd \<Rightarrow> request \<Rightarrow> (exn + response) \<times> 'd" where
  "create_view_body h r rest d req =
     (if \<not> has_doc h d then
        (Inr (make_response [(''error'', JStr ''No active Revit document'')] 503), d)
      else case ebind (load_data r req) (\<lambda>data.
                  ebind (py_get data ''view_type'' JNull) (\<lambda>vtype.
                  ebind (py_get data ''name'' JNull) (\<lambda>name. Inr (data, vtype, name)))) of
        Inl e \<Rightarrow> (Inl e, d)
      | Inr (data, vtype, name) \<Rightarrow>
          if \<not> truthy vtype then
            (Inr (make_response
               [(''error'',
                 JStr ''view_type is required (floor_plan, ceiling_plan, section, elevation, 3d)'')]
               400), d)
          else if \<not> truthy name then
            (Inr (make_response [(''error'', JStr ''name is required'')] 400), d)
          else
            (case py_get data ''level_name'' JNull of
               Inl e \<Rightarrow> (Inl e, d)
             | Inr level_name \<Rightarrow>
                 sbind (tx_start h ''Create View via MCP'' d) (\<lambda>_ d'.
                   create_view_transaction h r rest data vtype name level_name d')))"

definition create_view_handler ::
  "'d host \<Rightarrow> rt \<Rightarrow> (json \<Rightarrow> json \<Rightarrow> json \<Rightarrow> int option \<Rightarrow> 'd \<Rightarrow> (exn + response) \<times> 'd) \<Rightarrow>
   'd \<Rightarrow> request \<Rightarrow> response \<times> 'd" where
  "create_view_handler h r rest d req =
     (case create_view_body h r rest d req of
        (Inr resp, d') \<Rightarrow> (resp, d')
      | (Inl e, d') \<Rightarrow> (error_500 r e, d'))"

text \<open>
  /set\_active\_view/. The loop over the views: a view whose name or whose
  \<^verbatim>\<open>IsTemplate\<close> cannot be read is passed over; the name of a view that is no template is
  listed; the last view of the name asked for that is no template is the target.
\<close>

fun view_scan ::
  "'d host \<Rightarrow> 'd \<Rightarrow> json \<Rightarrow> int list \<Rightarrow> int option \<times> string list \<Rightarrow> int option \<times> string list" where
  "view_scan h d view_name [] acc = acc"
| "view_scan h d view_name (v # rest) acc =
     (case get_element_name h d v of
        Inl e \<Rightarrow> view_scan h d view_name rest acc
      | Inr vname \<Rightarrow>
          (case is_template h d v of
             Inl e \<Rightarrow> view_scan h d view_name rest acc
           | Inr template \<Rightarrow>
               view_scan h d view_name rest
                 (if JStr vname = view_name \<and> \<not> template then Some v else fst acc,
                  if \<not> template then snd acc @ [vname] else snd acc)))"

definition set_active_view_body :: "'d host \<Rightarrow> rt \<Rightarrow> 'd \<Rightarrow> request \<Rightarrow> (exn + response) \<times> 'd" where
  "set_active_view_body h r d req =
     (if \<not> has_doc h d then
        (Inr (make_response [(''error'', JStr ''No active Revit document'')] 503), d)
      else case ebind (load_data r req) (\<lambda>data. py_get data ''view_name'' JNull) of
        Inl e \<Rightarrow> (Inl e, d)
      | Inr view_name \<Rightarrow>
          if \<not> truthy view_name then
            (Inr (make_response [(''error'', JStr ''view_name is required'')] 400), d)
          else
            (case view_scan h d view_name (doc_views h d) (None, []) of
               (None, available_views) \<Rightarrow>
                 (Inr (make_response
                    [(''error'', JStr (''View '' @ quoted (py_str r view_name) @ '' not found'')),
                     (''available_views'', JArr (map JStr (take 30 (sort available_views))))]
                    404), d)
             | (Some target_view, available_views) \<Rightarrow>
                 sbind (set_active_view h target_view d) (\<lambda>_ d'.
                   (Inr (ok_response
                      [(''status'', JStr ''success''),
                       (''view_id'', JInt (get_element_id_value target_view)),
                       (''name'', view_name),
                       (''view_type'', JStr (view_type h d' target_view)),
                       (''message'',
                        JStr (''Switched to view '' @ quoted (py_str r view_name)))]), d'))))"

definition set_active_view_handler :: "'d host \<Rightarrow> rt \<Rightarrow> 'd \<Rightarrow> request \<Rightarrow> response \<times> 'd" where
  "set_active_view_handler h r d req =
     (case set_active_view_body h r d req of
        (Inr resp, d') \<Rightarrow> (resp, d')
      | (Inl e, d') \<Rightarrow> (error_500 r e, d'))"

section \<open>mep.py: /create\_duct/ and /create\_pipe/\<close>

text \<open>
  The two handlers are modelled up to the lookup of the duct type and of the pipe type:
  the checks of the request, the two points, the lookup and its 404 response, and the
  outer \<^verbatim>\<open>except\<close> clause. What follows the lookup (the system type, the level, the
  transaction that creates the duct or pipe, the success response) is the parameter
  \<open>rest\<close>, given the data of the request, the two points in feet, the type found and the
  state. \<open>kind\<close> is \<^verbatim>\<open>duct\<close> or \<^verbatim>\<open>pipe\<close>, \<open>Kind\<close> the same word capitalised, \<open>family\<close>
  the word of the message for a document without such types, and \<open>types\<close> the types of
  the document.
\<close>

definition mep_body ::
  "string \<Rightarrow> string \<Rightarrow> string \<Rightarrow> ('d \<Rightarrow> int list) \<Rightarrow> 'd host \<Rightarrow> rt \<Rightarrow>
   (json \<Rightarrow> xyz \<Rightarrow> xyz \<Rightarrow> int \<Rightarrow> 'd \<Rightarrow> (exn + response) \<times> 'd) \<Rightarrow>
   'd \<Rightarrow> request \<Rightarrow> (exn + response) \<times> 'd" where
  "mep_body kind Kind family types h r rest d req =
     (if \<not> has_doc h d then
        (Inr (make_response [(''error'', JStr ''No active Revit document'')] 503), d)
      else case ebind (load_data r req) (\<lambda>data.
                  ebind (py_get data ''start_point'' JNull) (\<lambda>start_point.
                  ebind (py_get data ''end_point'' JNull) (\<lambda>end_point.
                    Inr (data, start_point, end_point)))) of
        Inl e \<Rightarrow> (Inl e, d)
      | Inr (data, start_point, end_point) \<Rightarrow>
          if \<not> truthy start_point \<or> \<not> truthy end_point then
            (Inr (make_response
               [(''error'', JStr ''start_point and end_point are required'')] 400), d)
          else
            (case ebind (feet_point r start_point) (\<lambda>start.
                  ebind (feet_point r end_point) (\<lambda>end_point.
                  ebind (py_get data (kind @ ''_type'') JNull) (\<lambda>type_name.
                    Inr (start, end_point, type_name)))) of
               Inl e \<Rightarrow> (Inl e, d)
             | Inr (start, end_point, type_name) \<Rightarrow>
                 (case types d of
                    [] \<Rightarrow>
                      (Inr (make_response
                         [(''error'', JStr (''No '' @ kind @ '' types available '' @ em_dash @
                             '' load a '' @ family @ '' template or family first.''))] 500), d)
                  | first_type # _ \<Rightarrow>
                      if truthy type_name then
                        (case find_named h d type_name (types d) of
                           Inl e \<Rightarrow> (Inl e, d)
                         | Inr None \<Rightarrow>
                             (case element_names h d (types d) of
                                Inl e \<Rightarrow> (Inl e, d)
                              | Inr available \<Rightarrow>
                                  (Inr (make_response
                                     [(''error'', JStr (Kind @ '' type '' @
                                         quoted (py_str r type_name) @ '' not found'')),
                                      (''available_'' @ kind @ ''_types'',
                                       JArr (map JStr available))] 404), d))
                         | Inr (Some target_type) \<Rightarrow> rest data start end_point target_type d)
                      else rest data start end_point first_type d)))"

definition create_duct_handler ::
  "'d host \<Rightarrow> rt \<Rightarrow> (json \<Rightarrow> xyz \<Rightarrow> xyz \<Rightarrow> int \<Rightarrow> 'd \<Rightarrow> (exn + response) \<times> 'd) \<Rightarrow>
   'd \<Rightarrow> request \<Rightarrow> response \<times> 'd" where
  "create_duct_handler h r rest d req =
     (case mep_body ''duct'' ''Duct'' ''mechanical'' (doc_duct_types h) h r rest d req of
        (Inr resp, d') \<Rightarrow> (resp, d')
      | (Inl e, d') \<Rightarrow> (error_500 r e, d'))"

definition create_pipe_handler ::
  "'d host \<Rightarrow> rt \<Rightarrow> (json \<Rightarrow> xyz \<Rightarrow> xyz \<Rightarrow> int \<Rightarrow> 'd \<Rightarrow> (exn + response) \<times> 'd) \<Rightarrow>
   'd \<Rightarrow> request \<Rightarrow> response \<times> 'd" where
  "create_pipe_handler h r rest d req =
     (case mep_body ''pipe'' ''Pipe'' ''plumbing'' (doc_pipe_types h) h r rest d req of
        (Inr resp, d') \<Rightarrow> (resp, d')
      | (Inl e, d') \<Rightarrow> (error_500 r e, d'))"

section \<open>analysis.py: /ai\_filter/\<close>

text \<open>\<^verbatim>\<open>s.lower()\<close>, on the letters of ASCII.\<close>

definition lower_char :: "char \<Rightarrow> char" where
  "lower_char c =
     (if CHR ''A'' \<le> c \<and> c \<le> CHR ''Z'' then char_of (of_char c + (32::nat)) else c)"

definition py_lower :: "string \<Rightarrow> string" where
  "py_lower s = map lower_char s"

text \<open>\<^verbatim>\<open>s.replace(old, new)\<close> for a non-empty \<open>old\<close>: the occurrences from left to right.\<close>

function py_replace :: "string \<Rightarrow> string \<Rightarrow> string \<Rightarrow> string" where
  "py_replace old new [] = []"
| "py_replace old new (c # cs) =
     (if old \<noteq> [] \<and> take (length old) (c # cs) = old
      then new @ py_replace old new (drop (length old) (c # cs))
      else c # py_replace old new cs)"
  by pat_completeness auto
termination
  by (relation "measure (\<lambda>(old, new, s). length s)") auto

text \<open>The text the source has in the place of the dash of one message: the bytes of a dash
  read in the wrong encoding and written again.\<close>

definition garbled_dash :: string where
  "garbled_dash =
     [char_of (0xC3::nat), char_of (0xA2::nat), char_of (0xE2::nat), char_of (0x82::nat),
      char_of (0xAC::nat), char_of (0xE2::nat), char_of (0x80::nat), char_of (0x9D::nat)]"

text \<open>\<^verbatim>\<open>n >= v\<close> for the length of a list and a JSON value.\<close>

fun len_ge :: "rt \<Rightarrow> nat \<Rightarrow> json \<Rightarrow> bool" where
  "len_ge r n (JInt i) = (i \<le> int n)"
| "len_ge r n (JNum x) = (x \<le> real n)"
| "len_ge r n (JBool b) = ((if b then 1 else 0) \<le> n)"
| "len_ge r n v = len_ge_other r n v"

text \<open>The request's data: an empty dict when there is no request or no data.\<close>

definition filter_data :: "rt \<Rightarrow> request \<Rightarrow> exn + json" where
  "filter_data r req = (if no_request_data req then Inr (JObj []) else load_data r req)"

text \<open>The bounding box, when both corners are given and the filter can be built; a failure
  is logged and the filter left out.\<close>

definition filter_bbox :: "'d host \<Rightarrow> rt \<Rightarrow> json \<Rightarrow> json \<Rightarrow> (xyz \<times> xyz) option" where
  "filter_bbox h r bbox_min bbox_max =
     (if truthy bbox_min \<and> truthy bbox_max then
        (case ebind (feet_point r bbox_min) (\<lambda>min_pt.
                ebind (feet_point r bbox_max) (\<lambda>max_pt. Inr (min_pt, max_pt))) of
           Inl _ \<Rightarrow> None
         | Inr (min_pt, max_pt) \<Rightarrow>
             (case outline_error h min_pt max_pt of
                Some _ \<Rightarrow> None
              | None \<Rightarrow> Some (min_pt, max_pt)))
      else None)"

text \<open>The filter by type name: a partial match, whatever the case, on the name of the
  element or on the name of its type; an exception skips the element.\<close>

definition type_matches :: "'d host \<Rightarrow> 'd \<Rightarrow> json \<Rightarrow> int \<Rightarrow> bool" where
  "type_matches h d type_name elem =
     (if truthy type_name then
        (case type_name of
           JStr t \<Rightarrow>
             (case get_element_name h d elem of
                Inl _ \<Rightarrow> False
              | Inr elem_type_name \<Rightarrow>
                  if \<not> is_substr (py_lower t) (py_lower elem_type_name) then
                    (case type_id h d elem of
                       Inr (Some ty) \<Rightarrow>
                         if get_element h d ty then
                           (case get_element_name h d ty of
                              Inl _ \<Rightarrow> False
                            | Inr full_type \<Rightarrow> is_substr (py_lower t) (py_lower full_type))
                         else False
                     | _ \<Rightarrow> False)
                  else True)
         | _ \<Rightarrow> False)
      else True)"

text \<open>The optional entries of an element's description; whatever cannot be read is left
  out.\<close>

definition info_level :: "'d host \<Rightarrow> 'd \<Rightarrow> int \<Rightarrow> (string \<times> json) list" where
  "info_level h d elem =
     (case level_id h d elem of
        Inr (Some lv) \<Rightarrow>
          if get_element h d lv then
            (case get_element_name h d lv of
               Inr n \<Rightarrow> [(''level'', JStr n)]
             | Inl _ \<Rightarrow> [])
          else []
      | _ \<Rightarrow> [])"

definition length_entry :: "string \<Rightarrow> param option \<Rightarrow> (string \<times> json) list" where
  "length_entry key p =
     (case p of
        Some q \<Rightarrow>
          if has_value q then
            (case as_double q of
               Inr x \<Rightarrow> [(key, JNum (py_round (x / MM_TO_FEET) 0))]
             | Inl _ \<Rightarrow> [])
          else []
      | None \<Rightarrow> [])"

definition info_length :: "'d host \<Rightarrow> 'd \<Rightarrow> int \<Rightarrow> (string \<times> json) list" where
  "info_length h d elem =
     (case lookup_parameter h d elem ''Length'' of
        Inr p \<Rightarrow> length_entry ''length_mm'' p
      | Inl _ \<Rightarrow> [])"

definition info_height :: "'d host \<Rightarrow> 'd \<Rightarrow> int \<Rightarrow> (string \<times> json) list" where
  "info_height h d elem =
     (case lookup_parameter h d elem ''Height'' of
        Inr None \<Rightarrow>
          (case lookup_parameter h d elem ''Unconnected Height'' of
             Inr p \<Rightarrow> length_entry ''height_mm'' p
           | Inl _ \<Rightarrow> [])
      | Inr (Some q) \<Rightarrow> length_entry ''height_mm'' (Some q)
      | Inl _ \<Rightarrow> [])"

definition element_info :: "'d host \<Rightarrow> 'd \<Rightarrow> int \<Rightarrow> exn + json" where
  "element_info h d elem =
     ebind (category_name h d elem) (\<lambda>category.
     ebind (get_element_name h d elem) (\<lambda>name.
       Inr (JObj ([(''id'', JInt (get_element_id_value elem)),
                   (''category'', JStr (case category of None \<Rightarrow> ''Unknown'' | Some c \<Rightarrow> c)),
                   (''type'', JStr name)]
                  @ info_level h d elem @ info_length h d elem @ info_height h d elem))))"

text \<open>The loop over the collected elements: it ends when \<^verbatim>\<open>max_elements\<close> are described.\<close>

fun filter_loop ::
  "'d host \<Rightarrow> rt \<Rightarrow> 'd \<Rightarrow> json \<Rightarrow> json \<Rightarrow> int list \<Rightarrow> json list \<Rightarrow> exn + json list" where
  "filter_loop h r d type_name max_elements [] elements = Inr elements"
| "filter_loop h r d type_name max_elements (elem # rest) elements =
     (if len_ge r (length elements) max_elements then Inr elements
      else if \<not> type_matches h d type_name elem then
        filter_loop h r d type_name max_elements rest elements
      else
        ebind (element_info h d elem) (\<lambda>elem_info.
          filter_loop h r d type_name max_elements rest (elements @ [elem_info])))"

definition filter_success :: "json \<Rightarrow> int list \<Rightarrow> json list \<Rightarrow> exn + response" where
  "filter_success category all_elements elements =
     ebind (if truthy category then
              (case category of
                 JStr c \<Rightarrow> Inr (py_lower (py_replace ''OST_'' [] c))
               | _ \<Rightarrow> Inl (AttributeError (quoted (class_name category) @
                          '' object has no attribute '' @ quoted ''replace'')))
            else Inr ''element'') (\<lambda>cat_label.
       Inr (ok_response
         [(''status'', JStr ''success''),
          (''elements'', JArr elements),
          (''count'', JInt (int (length elements))),
          (''total_matched'', JInt (int (length all_elements))),
          (''message'', JStr (''Found '' @ show_nat (length all_elements) @ '' '' @ cat_label @
                              plural (length all_elements) @ '' matching filters''))]))"

text \<open>The view to collect from. \<open>Inl\<close> is the early return of a response.\<close>

definition filter_view :: "'d host \<Rightarrow> 'd \<Rightarrow> json \<Rightarrow> response + int option" where
  "filter_view h d visible_in_view =
     (if truthy visible_in_view then
        (case active_view h d of
           None \<Rightarrow> Inl (make_response [(''error'', JStr ''No active view for visibility filter'')] 400)
         | Some v \<Rightarrow>
             if view_type h d v \<in> {''Schedule'', ''Internal'', ''DrawingSheet''} then
               Inl (make_response
                 [(''error'', JStr (''Current view type '' @ quoted (view_type h d v) @
                     '' does not support element filtering '' @ garbled_dash @
                     '' switch to a plan, section, or 3D view''))] 400)
             else Inr (Some v))
      else Inr None)"

text \<open>The category to collect: \<^verbatim>\<open>getattr(DB.BuiltInCategory, category)\<close> raises
  \<^verbatim>\<open>AttributeError\<close>, answered with 400, for a name the host does not have, and
  \<^verbatim>\<open>TypeError\<close>, not caught here, for a value that is no string.\<close>

definition filter_category :: "'d host \<Rightarrow> rt \<Rightarrow> json \<Rightarrow> exn + (response + string option)" where
  "filter_category h r category =
     (if truthy category then
        (case category of
           JStr c \<Rightarrow>
             if builtin_category h c then Inr (Inr (Some c))
             else
               Inr (Inl (make_response
                 [(''error'', JStr (''Invalid category: '' @ py_str r category @
                     ''. Use BuiltInCategory names like OST_Walls, OST_Doors''))] 400))
         | _ \<Rightarrow> Inl (TypeError ''getattr(): attribute name must be string''))
      else Inr (Inr None))"

definition ai_filter_body :: "'d host \<Rightarrow> rt \<Rightarrow> 'd \<Rightarrow> request \<Rightarrow> exn + response" where
  "ai_filter_body h r d req =
     (if \<not> has_doc h d then
        Inr (make_response [(''error'', JStr ''No active Revit document'')] 503)
      else
        ebind (filter_data r req) (\<lambda>data.
        ebind (py_get data ''category'' JNull) (\<lambda>category.
        ebind (py_get data ''type_name'' JNull) (\<lambda>type_name.
        ebind (py_get data ''visible_in_view'' (JBool False)) (\<lambda>visible_in_view.
        ebind (py_get data ''bounding_box_min'' JNull) (\<lambda>bbox_min.
        ebind (py_get data ''bounding_box_max'' JNull) (\<lambda>bbox_max.
        ebind (py_get data ''max_elements'' (JInt 50)) (\<lambda>max_elements.
          case filter_view h d visible_in_view of
            Inl resp \<Rightarrow> Inr resp
          | Inr view \<Rightarrow>
              ebind (filter_category h r category) (\<lambda>cat.
                case cat of
                  Inl resp \<Rightarrow> Inr resp
                | Inr bic \<Rightarrow>
                    ebind (collect h d view bic (filter_bbox h r bbox_min bbox_max)) (\<lambda>all_elements.
                    ebind (filter_loop h r d type_name max_elements all_elements []) (\<lambda>elements.
                      filter_success category all_elements elements)))))))))))"

text \<open>The handler changes nothing in the document.\<close>

definition ai_element_filter_handler :: "'d host \<Rightarrow> rt \<Rightarrow> 'd \<Rightarrow> request \<Rightarrow> response \<times> 'd" where
  "ai_element_filter_handler h r d req =
     (case ai_filter_body h r d req of
        Inr resp \<Rightarrow> (resp, d)
      | Inl e \<Rightarrow> (error_500 r e, d))"

section \<open>analysis.py: the conversions of /room\_data/ and /material\_quantities/\<close>

text \<open>\<^verbatim>\<open>round(area_param.AsDouble() * SQFT_TO_SQM, 2)\<close> and
  \<^verbatim>\<open>round(data_vals["area_sqft"] * SQFT_TO_SQM, 2)\<close>.\<close>

definition area_sqm :: "real \<Rightarrow> real" where
  "area_sqm area_sqft = py_round (area_sqft * SQFT_TO_SQM) 2"

text \<open>\<^verbatim>\<open>round(data_vals["volume_cuft"] * CUFT_TO_CUM, 3)\<close>.\<close>

definition volume_cum :: "real \<Rightarrow> real" where
  "volume_cum volume_cuft = py_round (volume_cuft * CUFT_TO_CUM) 3"

text \<open>\<^verbatim>\<open>round(perim_param.AsDouble() / MM_TO_FEET, 0)\<close>.\<close>

definition perimeter_mm :: "real \<Rightarrow> real" where
  "perimeter_mm feet = py_round (feet / MM_TO_FEET) 0"

section \<open>Notions the properties below are stated with\<close>

text \<open>The ids a /delete\_elements/ request asks for: the items of its \<^verbatim>\<open>element_ids\<close>, as the
  handler reads them.\<close>

definition requested_ids :: "rt \<Rightarrow> request \<Rightarrow> exn + json list" where
  "requested_ids r req =
     ebind (ebind (load_data r req) (\<lambda>data. py_get data ''element_ids'' (JArr []))) py_iter"

text \<open>
  A requested id resolves when it converts to an element id and the document has an element
  of that id. The answer to the first requested id that does not resolve: 404 when the id
  converts, the 500 of the outer \<^verbatim>\<open>except\<close> clause, with the exception of
  \<^verbatim>\<open>make_element_id\<close>, when it does not.
\<close>

definition resolves :: "'d host \<Rightarrow> rt \<Rightarrow> 'd \<Rightarrow> json \<Rightarrow> bool" where
  "resolves h r d j = (case make_element_id r j of Inr i \<Rightarrow> get_element h d i | Inl e \<Rightarrow> False)"

definition unresolved_response :: "rt \<Rightarrow> json \<Rightarrow> response" where
  "unresolved_response r j =
     (case make_element_id r j of
        Inr i \<Rightarrow>
          \<lparr>status = 404,
           body = [(''error'', JStr (''Element '' @ py_str r j @ '' not found in the active model''))]\<rparr>
      | Inl e \<Rightarrow>
          \<lparr>status = 500,
           body = [(''error'', JStr (exn_msg e)), (''traceback'', JStr (format_exc r e))]\<rparr>)"

text \<open>Everything the host reports as deleted while the given elements are deleted one after
  the other, starting in state \<open>d\<close>.\<close>

fun reported_deleted :: "'d host \<Rightarrow> int list \<Rightarrow> 'd \<Rightarrow> int list" where
  "reported_deleted h [] d = []"
| "reported_deleted h (i # rest) d =
     (case delete h i d of
        (Inr result, d') \<Rightarrow> result @ reported_deleted h rest d'
      | (Inl e, d') \<Rightarrow> [])"









text \<open>The id an entry of \<^verbatim>\<open>created\<close> gives.\<close>

definition entry_id :: "json \<Rightarrow> int option" where
  "entry_id entry =
     (case entry of
        JObj kvs \<Rightarrow> (case map_of kvs ''id'' of Some (JInt i) \<Rightarrow> Some i | _ \<Rightarrow> None)
      | _ \<Rightarrow> None)"









text \<open>
  The shapes of a response. \<open>has_string resp key\<close>: the body has a string under \<open>key\<close>.
  A success envelope is a 200 response with \<^verbatim>\<open>"status": "success"\<close> and a string
  \<^verbatim>\<open>message\<close>; the success response of /execute\_code/ has \<^verbatim>\<open>output\<close> in the place of
  \<^verbatim>\<open>message\<close>. An error response has a string \<^verbatim>\<open>error\<close>, and either the status 500 and
  a string \<^verbatim>\<open>traceback\<close>, or a status among 400, 404, 500 and 503 and no \<^verbatim>\<open>traceback\<close>.
\<close>

definition has_string :: "response \<Rightarrow> string \<Rightarrow> bool" where
  "has_string resp key = (case map_of (body resp) key of Some (JStr s) \<Rightarrow> True | _ \<Rightarrow> False)"

definition success_envelope :: "response \<Rightarrow> bool" where
  "success_envelope resp \<longleftrightarrow>
     status resp = 200 \<and> map_of (body resp) ''status'' = Some (JStr ''success'') \<and>
     has_string resp ''message''"

definition output_envelope :: "response \<Rightarrow> bool" where
  "output_envelope resp \<longleftrightarrow>
     status resp = 200 \<and> map_of (body resp) ''status'' = Some (JStr ''success'') \<and>
     has_string resp ''output'' \<and> map_of (body resp) ''message'' = None"

definition traceback_envelope :: "response \<Rightarrow> bool" where
  "traceback_envelope resp \<longleftrightarrow>
     status resp = 500 \<and> has_string resp ''error'' \<and> has_string resp ''traceback''"

definition error_only_envelope :: "response \<Rightarrow> bool" where
  "error_only_envelope resp \<longleftrightarrow>
     status resp \<in> {400, 404, 500, 503} \<and> has_string resp ''error'' \<and>
     map_of (body resp) ''traceback'' = None"

definition envelope :: "response \<Rightarrow> bool" where
  "envelope resp \<longleftrightarrow>
     success_envelope resp \<or> traceback_envelope resp \<or> error_only_envelope resp"

definition code_envelope :: "response \<Rightarrow> bool" where
  "code_envelope resp \<longleftrightarrow>
     output_envelope resp \<or> traceback_envelope resp \<or> error_only_envelope resp"

text \<open>The outcome of /execute\_code/: a response of one of these shapes, or an exception
  that no \<^verbatim>\<open>except Exception\<close> clause catches.\<close>

definition code_outcome :: "rt \<Rightarrow> exn + response \<Rightarrow> bool" where
  "code_outcome r res = (case res of Inr resp \<Rightarrow> code_envelope resp | Inl e \<Rightarrow> \<not> is_exception r e)"

text \<open>An outcome that is a response of status 503.\<close>

definition answers_503 :: "exn + response \<Rightarrow> bool" where
  "answers_503 res = (case res of Inr resp \<Rightarrow> status resp = 503 | Inl e \<Rightarrow> False)"

text \<open>
  The names of elements. \<open>raw_names h d elems raw\<close>: the elements have the names \<open>raw\<close>
  in the host (\<open>None\<close> for a name that is null), and every name can be read. The handlers
  compare and list names as \<^verbatim>\<open>get_element_name\<close> gives them: \<^verbatim>\<open>Unnamed\<close> for a null name,
  and a question mark for every character outside ASCII. \<open>unknown_name name raw\<close>: the name
  asked for is given and is, read that way, the name of none of the elements.
\<close>

definition raw_names :: "'d host \<Rightarrow> 'd \<Rightarrow> int list \<Rightarrow> string option list \<Rightarrow> bool" where
  "raw_names h d elems raw \<longleftrightarrow> map (elem_name h d) elems = map Inr raw"

definition listed_names :: "string option list \<Rightarrow> json" where
  "listed_names raw = JArr (map (\<lambda>n. JStr (sanitize_string n)) raw)"

definition unknown_name :: "json \<Rightarrow> string option list \<Rightarrow> bool" where
  "unknown_name name raw \<longleftrightarrow> truthy name \<and> (\<forall>n\<in>set raw. name \<noteq> JStr (sanitize_string n))"

text \<open>The 404 response to a name that is not found: the message, and under \<open>key\<close> the
  list of the names there are.\<close>

definition not_found_response :: "rt \<Rightarrow> string \<Rightarrow> string \<Rightarrow> json \<Rightarrow> json \<Rightarrow> response" where
  "not_found_response r what key name available =
     \<lparr>status = 404,
      body = [(''error'', JStr (what @ '' '' @ quoted (py_str r name) @ '' not found'')),
              (key, available)]\<rparr>"

text \<open>The names of the views that are no templates, as /set\_active\_view/ lists them:
  sorted, the first 30.\<close>

definition listed_views :: "string option list \<Rightarrow> bool list \<Rightarrow> json" where
  "listed_views raw templates =
     JArr (map JStr (take 30 (sort
       (map (\<lambda>nt. sanitize_string (fst nt)) (filter (\<lambda>nt. \<not> snd nt) (zip raw templates))))))"

definition unknown_view :: "json \<Rightarrow> string option list \<Rightarrow> bool list \<Rightarrow> bool" where
  "unknown_view name raw templates \<longleftrightarrow>
     truthy name \<and>
     (\<forall>nt\<in>set (zip raw templates). \<not> snd nt \<longrightarrow> name \<noteq> JStr (sanitize_string (fst nt)))"

section \<open>A small host and interpreter, for running the handlers on examples\<close>

text \<open>
  The document of the example host is a list of elements, each with its kind and its name;
  the t_elevations of the levels; the pairs (dependent, host) of t_hosted elements; the
  t_snapshot taken when a transaction was started; and the next free id. Deleting an element
  deletes what it hosts; a name can be given to one element only; a rollback restores the
  t_snapshot; a line shorter than 0.00256 ft is refused; a wall needs a positive height; a
  curve loop takes a line only where the loop ended.
\<close>

record toy_doc =
  t_present :: bool
  t_locked :: bool
  t_elems :: "(int \<times> string \<times> string) list"
  t_elevations :: "(int \<times> real) list"
  t_hosted :: "(int \<times> int) list"
  t_snapshot :: "((int \<times> string \<times> string) list \<times> (int \<times> real) list \<times> int) option"
  t_next_id :: int

definition toy_start :: "string \<Rightarrow> toy_doc \<Rightarrow> (exn + unit) \<times> toy_doc" where
  "toy_start n d =
     (if \<not> t_present d then
        (Inl (Exn ''ArgumentNullException'' ''Value cannot be null. Parameter name: document''), d)
      else if t_snapshot d \<noteq> None then
        (Inl (Exn ''InvalidOperationException'' ''a transaction is open''), d)
      else (Inr (), d\<lparr>t_snapshot := Some (t_elems d, t_elevations d, t_next_id d)\<rparr>))"

definition toy_commit :: "toy_doc \<Rightarrow> (exn + unit) \<times> toy_doc" where
  "toy_commit d =
     (if t_locked d then (Inl (Exn ''InvalidOperationException'' ''The document is locked''), d)
      else (Inr (), d\<lparr>t_snapshot := None\<rparr>))"

definition toy_rollback :: "toy_doc \<Rightarrow> (exn + unit) \<times> toy_doc" where
  "toy_rollback d =
     (case t_snapshot d of
        None \<Rightarrow> (Inl (Exn ''InvalidOperationException'' ''no transaction is open''), d)
      | Some (es, evs, n) \<Rightarrow>
          (Inr (), d\<lparr>t_elems := es, t_elevations := evs, t_next_id := n, t_snapshot := None\<rparr>))"

definition toy_name :: "toy_doc \<Rightarrow> int \<Rightarrow> exn + string option" where
  "toy_name d i = Inr (map_option snd (map_of (t_elems d) i))"

definition toy_set_name :: "int \<Rightarrow> string \<Rightarrow> toy_doc \<Rightarrow> (exn + unit) \<times> toy_doc" where
  "toy_set_name i n d =
     (if n \<in> (\<lambda>e. snd (snd e)) ` set (t_elems d) then
        (Inl (Exn ''ArgumentException'' ''Name must be unique''), d)
      else (Inr (), d\<lparr>t_elems := map (\<lambda>e. if fst e = i then (i, fst (snd e), n) else e) (t_elems d)\<rparr>))"

definition toy_delete :: "int \<Rightarrow> toy_doc \<Rightarrow> (exn + int list) \<times> toy_doc" where
  "toy_delete i d =
     (if map_of (t_elems d) i = None then (Inl (Exn ''ArgumentException'' ''no such element''), d)
      else
        (let gone = i # map fst (filter (\<lambda>jk. snd jk = i) (t_hosted d))
         in (Inr gone, d\<lparr>t_elems := filter (\<lambda>e. fst e \<notin> set gone) (t_elems d)\<rparr>)))"

definition toy_new :: "string \<Rightarrow> string \<Rightarrow> toy_doc \<Rightarrow> (exn + int) \<times> toy_doc" where
  "toy_new kind name d =
     (Inr (t_next_id d), d\<lparr>t_elems := t_elems d @ [(t_next_id d, kind, name)], t_next_id := t_next_id d + 1\<rparr>)"

definition toy_level_create :: "real \<Rightarrow> toy_doc \<Rightarrow> (exn + int) \<times> toy_doc" where
  "toy_level_create ft d =
     toy_new ''level'' ''New Level'' (d\<lparr>t_elevations := t_elevations d @ [(t_next_id d, ft)]\<rparr>)"

definition toy_of_kind :: "string \<Rightarrow> toy_doc \<Rightarrow> int list" where
  "toy_of_kind kind d = map fst (filter (\<lambda>e. fst (snd e) = kind) (t_elems d))"

definition toy_elevation :: "toy_doc \<Rightarrow> int \<Rightarrow> real" where
  "toy_elevation d i = (case map_of (t_elevations d) i of None \<Rightarrow> 0 | Some x \<Rightarrow> x)"

definition toy_create_bound :: "xyz \<Rightarrow> xyz \<Rightarrow> exn option" where
  "toy_create_bound p q =
     (case p of (px, py, pz) \<Rightarrow> case q of (qx, qy, qz) \<Rightarrow>
        if (px - qx)\<^sup>2 + (py - qy)\<^sup>2 + (pz - qz)\<^sup>2 < (0.00256)\<^sup>2
        then Some (Exn ''ArgumentsInconsistentException'' ''Curve length is too small'')
        else None)"

definition toy_wall_create ::
  "line \<Rightarrow> int \<Rightarrow> int \<Rightarrow> real \<Rightarrow> real \<Rightarrow> bool \<Rightarrow> toy_doc \<Rightarrow> (exn + int) \<times> toy_doc" where
  "toy_wall_create l t lv height off structural d =
     (if height \<le> 0 then (Inl (Exn ''ArgumentException'' ''The height must be positive''), d)
      else toy_new ''wall'' ''Wall'' d)"

definition toy_loop_append :: "line list \<Rightarrow> line \<Rightarrow> exn option" where
  "toy_loop_append ls l =
     (if ls \<noteq> [] \<and> snd (last ls) \<noteq> fst l
      then Some (Exn ''ArgumentException'' ''The curve does not continue the loop'')
      else None)"

text \<open>The example host runs two programs, \<^verbatim>\<open>print 1\<close> and \<^verbatim>\<open>raise SystemExit(0)\<close>; any other
  code is a syntax error.\<close>

definition toy_exec :: "json \<Rightarrow> toy_doc \<Rightarrow> ((exn + unit) \<times> string) \<times> toy_doc" where
  "toy_exec code d =
     (if code = JStr ''print 1'' then ((Inr (), ''1''), d)
      else if code = JStr ''raise SystemExit(0)'' then ((Inl (Exn ''SystemExit'' ''0''), []), d)
      else ((Inl (Exn ''SyntaxError'' ''invalid syntax''), []), d))"

text \<open>Every element of the example host has an area of 10000 square feet and no other
  parameter.\<close>

definition toy_lookup :: "toy_doc \<Rightarrow> int \<Rightarrow> string \<Rightarrow> exn + param option" where
  "toy_lookup d i name =
     Inr (if name = ''Area''
          then Some \<lparr>is_read_only = True, has_value = True, as_double = Inr 10000,
                     as_string = Inr None\<rparr>
          else None)"

text \<open>The elements of a category are those of the kind of that name; views and bounding
  boxes do not restrict the example host's answer.\<close>

definition toy_collect ::
  "toy_doc \<Rightarrow> int option \<Rightarrow> string option \<Rightarrow> (xyz \<times> xyz) option \<Rightarrow> exn + int list" where
  "toy_collect d view category bbox =
     Inr (case category of
            None \<Rightarrow> map fst (t_elems d)
          | Some c \<Rightarrow>
              if c = ''OST_Walls'' then toy_of_kind ''wall'' d
              else if c = ''OST_Doors'' then toy_of_kind ''door'' d
              else if c = ''OST_Windows'' then toy_of_kind ''window'' d
              else toy_of_kind ''level'' d)"

text \<open>The views of the example host: the elements of the kinds \<open>view\<close> and
  \<open>view template\<close>.\<close>

definition toy_views :: "toy_doc \<Rightarrow> int list" where
  "toy_views d = map fst (filter (\<lambda>e. fst (snd e) \<in> {''view'', ''view template''}) (t_elems d))"

definition toy_host :: "toy_doc host" where
  "toy_host =
     \<lparr>has_doc = t_present,
      tx_start = toy_start,
      tx_commit = toy_commit,
      tx_rollback = toy_rollback,
      tx_active = (\<lambda>d. t_snapshot d \<noteq> None),
      elem_name = toy_name,
      set_name = toy_set_name,
      get_element = (\<lambda>d i. map_of (t_elems d) i \<noteq> None),
      delete = toy_delete,
      level_create = toy_level_create,
      doc_levels = toy_of_kind ''level'',
      level_elevation = toy_elevation,
      doc_wall_types = toy_of_kind ''wall type'',
      doc_beam_types = toy_of_kind ''beam type'',
      doc_floor_types = toy_of_kind ''floor type'',
      doc_roof_types = toy_of_kind ''roof type'',
      create_bound = toy_create_bound,
      wall_create = toy_wall_create,
      is_active = (\<lambda>d i. True),
      activate = (\<lambda>i d. (Inr (), d)),
      regenerate = (\<lambda>d. (Inr (), d)),
      new_beam = (\<lambda>l t lv. toy_new ''beam'' ''Beam''),
      loop_append = toy_loop_append,
      floor_create = (\<lambda>ls t lv. toy_new ''floor'' ''Floor''),
      floor_offset_param = (\<lambda>d i. Some False),
      set_floor_offset = (\<lambda>i x d. (Inr (), d)),
      new_footprint_roof = (\<lambda>ls lv t. toy_new ''roof'' ''Roof''),
      grid_create = (\<lambda>l. toy_new ''grid'' ''Grid''),
      exec_code = toy_exec,
      doc_phases = toy_of_kind ''phase'',
      new_room_at = (\<lambda>lv uv d. case toy_new ''room'' ''Room'' d of (x, d') \<Rightarrow> (map_sum id Some x, d')),
      new_room_phase = (\<lambda>ph d. case toy_new ''room'' ''Room'' d of (x, d') \<Rightarrow> (map_sum id Some x, d')),
      lookup_parameter = toy_lookup,
      set_parameter = (\<lambda>i n v d. (Inr (), d)),
      active_view = (\<lambda>d. None),
      view_type = (\<lambda>d i. ''FloorPlan''),
      builtin_category = (\<lambda>s. s \<in> {''OST_Walls'', ''OST_Doors'', ''OST_Windows'', ''OST_Levels''}),
      outline_error = (\<lambda>p q. None),
      collect = toy_collect,
      category_name = (\<lambda>d i. Inr (map_option fst (map_of (t_elems d) i))),
      type_id = (\<lambda>d i. Inr None),
      level_id = (\<lambda>d i. Inr None),
      doc_views = toy_views,
      is_template = (\<lambda>d i. Inr (map_option fst (map_of (t_elems d) i) = Some ''view template'')),
      set_active_view = (\<lambda>v d. (Inr (), d)),
      doc_duct_types = toy_of_kind ''duct type'',
      doc_pipe_types = toy_of_kind ''pipe type''\<rparr>"

text \<open>The example interpreter parses no strings and prints nothing of its own.\<close>

definition toy_rt :: rt where
  "toy_rt =
     \<lparr>float_of_str = (\<lambda>s. None),
      int_of_str = (\<lambda>s. None),
      repr_of = (\<lambda>v. ''<value>''),
      json_loads = (\<lambda>s. Inl (ValueError ''No JSON object could be decoded'')),
      format_exc = (\<lambda>e. ''Traceback (most recent call last): '' @ exn_type e @ '': '' @ exn_msg e),
      id_error_text = (\<lambda>i. ''value out of range''),
      len_ge_other = (\<lambda>n v. v = JNull),
      is_exception =
        (\<lambda>e. exn_type e \<notin> {''SystemExit'', ''KeyboardInterrupt'', ''GeneratorExit''})\<rparr>"

text \<open>A document with a level (1), a phase (2), a wall type (30), a floor type (40), a wall (10) that
  hosts a door (11) and a window (12), and another wall (20).\<close>

definition toy_model :: toy_doc where
  "toy_model =
     \<lparr>t_present = True,
      t_locked = False,
      t_elems = [(1, ''level'', ''Level 1''), (2, ''phase'', ''New Construction''),
               (30, ''wall type'', ''Generic''),
               (40, ''floor type'', ''Slab''), (10, ''wall'', ''Wall A''), (11, ''door'', ''Door''),
               (12, ''window'', ''Window''), (20, ''wall'', ''Wall B'')],
      t_elevations = [(1, 0)],
      t_hosted = [(11, 10), (12, 10)],
      t_snapshot = None,
      t_next_id = 100\<rparr>"

text \<open>
  A document with two levels, the second of a name with a character outside ASCII
  (\<open>Caf\<close> and e acute, U+00E9), three views (50, 52, 53) and a view template (51), two
  duct types (60, 61) and a pipe type (70).
\<close>

definition toy_cafe :: string where
  "toy_cafe = ''Caf'' @ [char_of (0xE9::nat)]"

definition toy_mep :: toy_doc where
  "toy_mep =
     \<lparr>t_present = True,
      t_locked = False,
      t_elems = [(1, ''level'', ''Level 1''), (3, ''level'', toy_cafe),
               (2, ''phase'', ''New Construction''),
               (50, ''view'', ''Level 1''), (51, ''view template'', ''Plan template''),
               (52, ''view'', ''Section A''), (53, ''view'', ''3D''),
               (60, ''duct type'', ''Round''), (61, ''duct type'', ''Oval''),
               (70, ''pipe type'', ''Standard'')],
      t_elevations = [(1, 0), (3, 3000 / 304.8)],
      t_hosted = [],
      t_snapshot = None,
      t_next_id = 100\<rparr>"

text \<open>The host with no document open.\<close>

definition toy_none :: toy_doc where
  "toy_none =
     \<lparr>t_present = False, t_locked = False, t_elems = [], t_elevations = [], t_hosted = [], t_snapshot = None, t_next_id = 0\<rparr>"

text \<open>The same document, locked.\<close>

definition toy_locked :: toy_doc where
  "toy_locked = toy_model\<lparr>t_locked := True\<rparr>"

text \<open>Example requests for /delete\_elements/: the two walls; a wall and an id that is no
  element.\<close>

definition toy_delete_walls :: request where
  "toy_delete_walls = Some (JObj [(''element_ids'', JArr [JInt 10, JInt 20])])"

definition toy_delete_missing :: request where
  "toy_delete_missing = Some (JObj [(''element_ids'', JArr [JInt 10, JInt 99])])"

text \<open>A request for an id that is no 64-bit integer.\<close>

definition toy_delete_huge :: request where
  "toy_delete_huge = Some (JObj [(''element_ids'', JArr [JInt 9223372036854775808])])"

text \<open>A triangle given as a point array, and a floor with that boundary.\<close>

definition toy_triangle :: "json list" where
  "toy_triangle =
     [JObj [(''x'', JInt 0), (''y'', JInt 0)],
      JObj [(''x'', JInt 4000), (''y'', JInt 0)],
      JObj [(''x'', JInt 0), (''y'', JInt 3000)]]"

definition toy_floor :: json where
  "toy_floor = JObj [(''element_type'', JStr ''floor''), (''boundary'', JArr toy_triangle)]"









text \<open>Requests that name a level, a view, a duct type and a pipe type the document
  \<open>toy_mep\<close> does not have. The part of the handlers that is not modelled is never
  reached by them; \<open>toy_rest\<close> stands for it.\<close>

definition toy_view_request :: request where
  "toy_view_request =
     Some (JObj [(''view_type'', JStr ''floor_plan''), (''name'', JStr ''Plan 2''),
                 (''level_name'', JStr ''Level 2'')])"

definition toy_active_view_request :: request where
  "toy_active_view_request = Some (JObj [(''view_name'', JStr ''Plan template'')])"

definition toy_duct_request :: request where
  "toy_duct_request =
     Some (JObj [(''start_point'', JObj [(''x'', JInt 0)]),
                 (''end_point'', JObj [(''x'', JInt 3048)]),
                 (''duct_type'', JStr ''Square'')])"

definition toy_pipe_request :: request where
  "toy_pipe_request =
     Some (JObj [(''start_point'', JObj [(''x'', JInt 0)]),
                 (''end_point'', JObj [(''x'', JInt 3048)]),
                 (''pipe_type'', JStr ''Copper'')])"

text \<open>A room on the level of the second name, as the document has it and as the
  handlers read it.\<close>

definition toy_room_cafe :: request where
  "toy_room_cafe = Some (JObj [(''level_name'', JStr toy_cafe)])"

definition toy_room_caf :: request where
  "toy_room_caf = Some (JObj [(''level_name'', JStr ''Caf?'')])"

section \<open>Properties\<close>

subsection \<open>Sequencing\<close>

lemma ebind_simps [simp]: "ebind (Inr x) f = f x" "ebind (Inl e) f = Inl e"
  by (simp_all add: ebind_def)

lemma sbind_simps [simp]: "sbind (Inr x, d) g = g x d" "sbind (Inl e, d) g = (Inl e, d)"
  by (simp_all add: sbind_def)


subsection \<open>editing.py\<close>

lemma validate_ids_404:
  "validate_ids h r d js acc = Inr (Inl resp) \<Longrightarrow> status resp = 404"
proof (induction js arbitrary: acc)
  case Nil
  then show ?case by simp
next
  case (Cons j js)
  then show ?case
    by (cases "make_element_id r j") (auto simp: make_response_def split: if_splits)
qed

lemma validate_ids_ok:
  "validate_ids h r d js acc = Inr (Inr out) \<Longrightarrow>
     \<exists>ks. out = acc @ ks \<and> list_all2 (\<lambda>j i. make_element_id r j = Inr i) js ks \<and>
          (\<forall>i\<in>set ks. get_element h d i)"
proof (induction js arbitrary: acc)
  case Nil
  then show ?case by simp
next
  case (Cons j js)
  from Cons.prems obtain i where i: "make_element_id r j = Inr i"
    by (cases "make_element_id r j") (auto simp: ebind_def)
  with Cons.prems have ge: "get_element h d i" and rest: "validate_ids h r d js (acc @ [i]) = Inr (Inr out)"
    by (auto simp: ebind_def split: if_splits)
  from Cons.IH[OF rest] obtain ks where "out = (acc @ [i]) @ ks"
    "list_all2 (\<lambda>j i. make_element_id r j = Inr i) js ks" "\<forall>i\<in>set ks. get_element h d i" by blast
  with i ge show ?case by (intro exI[of _ "i # ks"]) auto
qed

lemma track_cascaded_set:
  "set (track_cascaded p res cs) = set cs \<union> (set res - {p})"
  unfolding track_cascaded_def get_element_id_value_def
  by (induction res arbitrary: cs) auto

lemma track_cascaded_distinct:
  "distinct cs \<Longrightarrow> distinct (track_cascaded p res cs)"
  unfolding track_cascaded_def get_element_id_value_def
  by (induction res arbitrary: cs) auto

lemma delete_loop_ok:
  "delete_loop h ids (dl, cs) d = (Inr (dl', cs'), d') \<Longrightarrow>
     dl' = dl @ ids \<and> set cs' \<union> set ids = set cs \<union> set (reported_deleted h ids d) \<union> set ids
     \<and> (distinct cs \<longrightarrow> distinct cs')"
proof (induction ids arbitrary: dl cs d)
  case Nil
  then show ?case by simp
next
  case (Cons i ids)
  from Cons.prems obtain res d1 where del: "delete h i d = (Inr res, d1)"
    by (cases "delete h i d"; cases "fst (delete h i d)") (auto simp: sbind_def)
  with Cons.prems have rest:
    "delete_loop h ids (dl @ [i], track_cascaded i res cs) d1 = (Inr (dl', cs'), d')"
    by (simp add: sbind_def get_element_id_value_def)
  from Cons.IH[OF rest] del show ?case
    by (auto simp: track_cascaded_set track_cascaded_distinct)
qed

lemma tbind_simps [simp]:
  "tbind (Ok x, d) f = f x d" "tbind (Raise e, d) f = (Raise e, d)" "tbind (Skip s, d) f = (Skip s, d)"
  by (simp_all add: tbind_def)

lemma of_sum_simps [simp]: "of_sum (Inr x) = Ok x" "of_sum (Inl e) = Raise e"
  by (simp_all add: of_sum_def)

lemma run_simps [simp]: "run (Inr x, d) = (Ok x, d)" "run (Inl e, d) = (Raise e, d)"
  by (simp_all add: run_def)

lemma show_nat_small: "n < 10 \<Longrightarrow> show_nat n = [''0123456789'' ! n]"
  by (simp add: show_nat.simps)

lemma sbind_Inr_D:
  "sbind m f = (Inr x, d') \<Longrightarrow> \<exists>y d1. m = (Inr y, d1) \<and> f y d1 = (Inr x, d')"
  by (cases m; cases "fst m") (auto simp: sbind_def)

lemma ebind_Inr_D:
  "ebind m f = Inr x \<Longrightarrow> \<exists>y. m = Inr y \<and> f y = Inr x"
  by (cases m) (auto simp: ebind_def)

lemma delete_transaction_ok:
  assumes "delete_transaction h ids d0 = (Inr resp, d')"
  shows "\<exists>cs d1. delete_loop h ids ([], []) d0 = (Inr (ids, cs), d1) \<and>
           tx_commit h d1 = (Inr (), d') \<and> resp = delete_success ids cs"
proof -
  let ?m = "delete_try h ids d0"
  have m: "?m = (Inr resp, d')"
  proof (cases ?m)
    case (Pair a b)
    with assms show ?thesis
      unfolding delete_transaction_def
      by (cases a; cases "rollback_if_active h b"; cases "fst (rollback_if_active h b)")
         (auto simp: sbind_def)
  qed
  from sbind_Inr_D[OF m[unfolded delete_try_def]] obtain acc d1 where
    loop: "delete_loop h ids ([], []) d0 = (Inr acc, d1)" and
    c: "sbind (tx_commit h d1) (\<lambda>_ d''. (Inr (delete_success (fst acc) (snd acc)), d'')) = (Inr resp, d')"
    by blast
  from sbind_Inr_D[OF c] have c': "tx_commit h d1 = (Inr (), d')" "resp = delete_success (fst acc) (snd acc)"
    by auto
  obtain dl cs where acc: "acc = (dl, cs)" by (cases acc)
  from delete_loop_ok[of h ids "[]" "[]" d0 dl cs d1] loop acc have "dl = ids" by simp
  with loop acc c' show ?thesis by auto
qed

lemma delete_body_200:
  assumes "delete_elements_body h r d req = (Inr resp, d')" and "status resp = 200"
  shows "\<exists>requested ids d0. requested_ids r req = Inr requested \<and>
           validate_ids h r d requested [] = Inr (Inr ids) \<and>
           tx_start h ''Delete Elements via MCP'' d = (Inr (), d0) \<and>
           delete_transaction h ids d0 = (Inr resp, d')"
  using assms
  unfolding delete_elements_body_def requested_ids_def
  by (auto simp: make_response_def split: if_splits sum.splits
        dest!: sbind_Inr_D ebind_Inr_D validate_ids_404)

text \<open>
  Claim C5. When a /delete\_elements/ request succeeds (status 200), \<^verbatim>\<open>deleted_ids\<close> is the
  list of the requested ids, each converted to its integer, in the order of the request;
  \<^verbatim>\<open>cascaded_ids\<close> holds exactly the other ids the host reported as deleted by those
  deletions, each once; and the two lists have no element in common.
\<close>

theorem delete_elements_success_ids:
  assumes "delete_elements_handler h r d req = (resp, d')" and "status resp = 200"
  shows "\<exists>requested deleted_ids cascaded_ids d0.
      requested_ids r req = Inr requested \<and>
      list_all2 (\<lambda>j i. make_element_id r j = Inr i) requested deleted_ids \<and>
      tx_start h ''Delete Elements via MCP'' d = (Inr (), d0) \<and>
      map_of (body resp) ''deleted_ids'' = Some (JArr (map JInt deleted_ids)) \<and>
      map_of (body resp) ''cascaded_ids'' = Some (JArr (map JInt cascaded_ids)) \<and>
      set cascaded_ids = set (reported_deleted h deleted_ids d0) - set deleted_ids \<and>
      set deleted_ids \<inter> set cascaded_ids = {} \<and> distinct cascaded_ids"
proof -
  from assms have b: "delete_elements_body h r d req = (Inr resp, d')"
    unfolding delete_elements_handler_def
    by (cases "delete_elements_body h r d req"; cases "fst (delete_elements_body h r d req)")
       (auto simp: error_500_def make_response_def)
  from delete_body_200[OF b assms(2)] obtain requested ids d0 where
    rq: "requested_ids r req = Inr requested" and
    v: "validate_ids h r d requested [] = Inr (Inr ids)" and
    st: "tx_start h ''Delete Elements via MCP'' d = (Inr (), d0)" and
    tr: "delete_transaction h ids d0 = (Inr resp, d')" by blast
  from validate_ids_ok[OF v] have la: "list_all2 (\<lambda>j i. make_element_id r j = Inr i) requested ids"
    by auto
  from delete_transaction_ok[OF tr] obtain cs d1 where
    loop: "delete_loop h ids ([], []) d0 = (Inr (ids, cs), d1)" and
    resp: "resp = delete_success ids cs" by blast
  from delete_loop_ok[OF loop] have
    sets: "set cs \<union> set ids = set (reported_deleted h ids d0) \<union> set ids" and dist: "distinct cs"
    by auto
  let ?casc = "filter (\<lambda>cid. cid \<notin> set ids) cs"
  have "set ?casc = set (reported_deleted h ids d0) - set ids" using sets by auto
  moreover have "set ids \<inter> set ?casc = {}" by auto
  moreover have "distinct ?casc" using dist by simp
  moreover have "map_of (body resp) ''deleted_ids'' = Some (JArr (map JInt ids))"
    "map_of (body resp) ''cascaded_ids'' = Some (JArr (map JInt ?casc))"
    by (simp_all add: resp delete_success_def ok_response_def make_response_def Let_def)
  ultimately show ?thesis using rq la st by blast
qed

lemmas toy_defs =
  toy_host_def toy_rt_def toy_model_def toy_none_def toy_locked_def toy_start_def toy_commit_def
  toy_rollback_def toy_name_def toy_set_name_def toy_delete_def toy_new_def toy_level_create_def
  toy_of_kind_def toy_elevation_def toy_create_bound_def toy_wall_create_def toy_loop_append_def
  toy_exec_def toy_lookup_def toy_collect_def

lemmas delete_defs =
  delete_elements_handler_def delete_elements_body_def no_request_data_def load_data_def
  request_data_def make_element_id_def delete_transaction_def delete_try_def rollback_if_active_def
  delete_success_def ok_response_def make_response_def track_cascaded_def
  get_element_id_value_def error_500_def requested_ids_def

theorem delete_elements_success_ids_witness:
  "status (fst (delete_elements_handler toy_host toy_rt toy_model toy_delete_walls)) = 200 \<and>
   (\<exists>requested deleted_ids cascaded_ids d0.
      requested_ids toy_rt toy_delete_walls = Inr requested \<and>
      list_all2 (\<lambda>j i. make_element_id toy_rt j = Inr i) requested deleted_ids \<and>
      tx_start toy_host ''Delete Elements via MCP'' toy_model = (Inr (), d0) \<and>
      map_of (body (fst (delete_elements_handler toy_host toy_rt toy_model toy_delete_walls)))
        ''deleted_ids'' = Some (JArr (map JInt deleted_ids)) \<and>
      map_of (body (fst (delete_elements_handler toy_host toy_rt toy_model toy_delete_walls)))
        ''cascaded_ids'' = Some (JArr (map JInt cascaded_ids)) \<and>
      set cascaded_ids = set (reported_deleted toy_host deleted_ids d0) - set deleted_ids \<and>
      set deleted_ids \<inter> set cascaded_ids = {} \<and> distinct cascaded_ids)"
proof -
  have st: "status (fst (delete_elements_handler toy_host toy_rt toy_model toy_delete_walls)) = 200"
    by (simp add: delete_defs toy_defs toy_delete_walls_def)
  have "delete_elements_handler toy_host toy_rt toy_model toy_delete_walls =
      (fst (delete_elements_handler toy_host toy_rt toy_model toy_delete_walls),
       snd (delete_elements_handler toy_host toy_rt toy_model toy_delete_walls))"
    by simp
  from delete_elements_success_ids[OF this st] st show ?thesis by blast
qed

lemma py_iter_truthy: "py_iter v = Inr xs \<Longrightarrow> xs \<noteq> [] \<Longrightarrow> truthy v"
  by (cases v) auto

lemma validate_ids_host:
  "validate_ids (h\<lparr>tx_start := ts, tx_commit := cm, tx_rollback := rb, delete := dl\<rparr>) r d js acc =
   validate_ids h r d js acc"
  by (induction js arbitrary: acc) (simp_all add: ebind_def split: sum.splits)

lemma validate_ids_first:
  "find (\<lambda>j. \<not> resolves h r d j) js = Some j \<Longrightarrow>
   validate_ids h r d js acc =
     (case make_element_id r j of
        Inl e \<Rightarrow> Inl e
      | Inr i \<Rightarrow>
          Inr (Inl (make_response
            [(''error'', JStr (''Element '' @ py_str r j @ '' not found in the active model''))]
            404)))"
proof (induction js arbitrary: acc)
  case Nil
  then show ?case by simp
next
  case (Cons k ks)
  show ?case
  proof (cases "resolves h r d k")
    case True
    then obtain i where i: "make_element_id r k = Inr i" "get_element h d i"
      by (auto simp: resolves_def split: sum.splits)
    from Cons.prems True have "find (\<lambda>j. \<not> resolves h r d j) ks = Some j" by simp
    from Cons.IH[OF this] i show ?thesis by simp
  next
    case False
    with Cons.prems have "k = j" by simp
    with False show ?thesis by (auto simp: resolves_def split: sum.splits)
  qed
qed

lemma find_unresolved_nonempty: "find P js = Some j \<Longrightarrow> js \<noteq> []"
  by auto

text \<open>
  Claim C9, as amended. When a requested id does not resolve to an element of the document,
  /delete\_elements/ answers the first such id, in the order of the request, and leaves the
  host's state as it was: with 404 when that id converts to an element id, with the 500 of
  the outer \<^verbatim>\<open>except\<close> clause when it does not (a string that is no number, an integer
  outside the 64-bit range). The answer does not depend on what the host's \<^verbatim>\<open>Start\<close>,
  \<^verbatim>\<open>Commit\<close>, \<^verbatim>\<open>RollBack\<close> and \<^verbatim>\<open>Delete\<close> do: none of them is reached, so no transaction is
  opened and nothing is deleted, the existing elements included.
\<close>

theorem delete_elements_missing_id:
  assumes "has_doc h d" and "\<not> no_request_data req"
    and "requested_ids r req = Inr requested"
    and "find (\<lambda>j. \<not> resolves h r d j) requested = Some j"
  shows "delete_elements_handler h r d req = (unresolved_response r j, d) \<and>
         (\<forall>ts cm rb dl.
            delete_elements_handler
              (h\<lparr>tx_start := ts, tx_commit := cm, tx_rollback := rb, delete := dl\<rparr>) r d req =
            (unresolved_response r j, d)) \<and>
         status (unresolved_response r j) =
           (case make_element_id r j of Inr i \<Rightarrow> 404 | Inl e \<Rightarrow> 500)"
proof -
  from assms(3) obtain data element_ids where
    l: "load_data r req = Inr data" and g: "py_get data ''element_ids'' (JArr []) = Inr element_ids"
    and it: "py_iter element_ids = Inr requested"
    unfolding requested_ids_def by (auto dest!: ebind_Inr_D)
  from assms(4) have "requested \<noteq> []" by (rule find_unresolved_nonempty)
  with it have tr: "truthy element_ids" by (rule py_iter_truthy)
  note v = validate_ids_first[OF assms(4), of "[]"]
  have a: "delete_elements_handler h r d req = (unresolved_response r j, d)"
    using assms(1,2) l g it tr v
    by (simp add: delete_elements_handler_def delete_elements_body_def unresolved_response_def
        error_500_def make_response_def split: sum.splits)
  have b: "delete_elements_handler
      (h\<lparr>tx_start := ts, tx_commit := cm, tx_rollback := rb, delete := dl\<rparr>) r d req =
      (unresolved_response r j, d)"
    for ts cm rb dl
    using assms(1,2) l g it tr v
    by (simp add: delete_elements_handler_def delete_elements_body_def validate_ids_host
        unresolved_response_def error_500_def make_response_def split: sum.splits)
  have c: "status (unresolved_response r j) =
           (case make_element_id r j of Inr i \<Rightarrow> 404 | Inl e \<Rightarrow> 500)"
    by (simp add: unresolved_response_def split: sum.splits)
  from a b c show ?thesis by blast
qed

theorem delete_elements_missing_id_witness:
  "has_doc toy_host toy_model \<and> \<not> no_request_data toy_delete_missing \<and>
   requested_ids toy_rt toy_delete_missing = Inr [JInt 10, JInt 99] \<and>
   find (\<lambda>j. \<not> resolves toy_host toy_rt toy_model j) [JInt 10, JInt 99] = Some (JInt 99) \<and>
   delete_elements_handler toy_host toy_rt toy_model toy_delete_missing =
     (\<lparr>status = 404, body = [(''error'', JStr ''Element 99 not found in the active model'')]\<rparr>,
      toy_model) \<and>
   (\<forall>ts cm rb dl.
      delete_elements_handler
        (toy_host\<lparr>tx_start := ts, tx_commit := cm, tx_rollback := rb, delete := dl\<rparr>)
        toy_rt toy_model toy_delete_missing =
      (\<lparr>status = 404, body = [(''error'', JStr ''Element 99 not found in the active model'')]\<rparr>,
       toy_model))"
proof -
  have a: "has_doc toy_host toy_model" "\<not> no_request_data toy_delete_missing"
    "requested_ids toy_rt toy_delete_missing = Inr [JInt 10, JInt 99]"
    by (simp_all add: delete_defs toy_defs toy_delete_missing_def)
  have m: "make_element_id toy_rt (JInt 10) = Inr 10" "make_element_id toy_rt (JInt 99) = Inr 99"
    by (simp_all add: make_element_id_def)
  have g: "get_element toy_host toy_model 10" "\<not> get_element toy_host toy_model 99"
    by (simp_all add: toy_defs)
  have f: "find (\<lambda>j. \<not> resolves toy_host toy_rt toy_model j) [JInt 10, JInt 99] = Some (JInt 99)"
    using g by (simp add: resolves_def m)
  have u: "unresolved_response toy_rt (JInt 99) =
      \<lparr>status = 404, body = [(''error'', JStr ''Element 99 not found in the active model'')]\<rparr>"
    by (simp add: unresolved_response_def m show_int_def show_nat.simps)
  from delete_elements_missing_id[OF a(1,2,3) f] a f show ?thesis
    unfolding u by blast
qed

text \<open>The integer 9223372036854775808 is the id of no element, and the answer is 500.\<close>

theorem delete_elements_unconvertible_id:
  "\<not> resolves toy_host toy_rt toy_model (JInt 9223372036854775808) \<and>
   status (fst (delete_elements_handler toy_host toy_rt toy_model toy_delete_huge)) = 500"
  by (simp add: resolves_def make_element_id_def delete_elements_handler_def
      delete_elements_body_def load_data_def request_data_def no_request_data_def
      toy_delete_huge_def error_500_def make_response_def toy_defs)


text \<open>
  Claim C8. The request \<^verbatim>\<open>{"levels":[{"elevation":3000,"name":"L2"}]}\<close> to /create\_level/,
  against a document in which the creation succeeds (the transaction starts, the level is
  created, takes the name, reads back as \<^verbatim>\<open>L2\<close>, and the transaction commits), is answered
  with status 200, \<^verbatim>\<open>"status": "success"\<close>, \<^verbatim>\<open>count\<close> 1 and a \<^verbatim>\<open>created\<close> list whose single
  entry has the new level's id, the name \<^verbatim>\<open>L2\<close> and \<^verbatim>\<open>elevation_mm\<close> 3000.0.
\<close>

theorem create_level_scenario:
  assumes "has_doc h d"
    and "tx_start h ''Create Levels'' d = (Inr (), d0)"
    and "level_create h (3000 / 304.8) d0 = (Inr new_level, d1)"
    and "set_name h new_level ''L2'' d1 = (Inr (), d2)"
    and "elem_name h d2 new_level = Inr (Some ''L2'')"
    and "tx_commit h d2 = (Inr (), d3)"
  shows "create_level_handler h r d
           (Some (JObj [(''levels'', JArr [JObj [(''elevation'', JInt 3000), (''name'', JStr ''L2'')]])])) =
         (\<lparr>status = 200,
           body = [(''status'', JStr ''success''),
                   (''created'', JArr [JObj [(''id'', JInt new_level), (''name'', JStr ''L2''),
                                            (''elevation_mm'', JNum 3000.0)]]),
                   (''count'', JInt 1),
                   (''message'', JStr ''Created 1 level(s)'')]\<rparr>, d3)"
  using assms
  by (simp add: create_level_handler_def create_level_body_def load_data_def request_data_def
      batch_transaction_def batch_try_def level_item_def get_element_name_def sanitize_string_def
      get_element_id_value_def batch_success_def ok_response_def make_response_def show_nat_small)

theorem create_level_scenario_witness:
  "create_level_handler toy_host toy_rt toy_model
     (Some (JObj [(''levels'', JArr [JObj [(''elevation'', JInt 3000), (''name'', JStr ''L2'')]])])) =
   (\<lparr>status = 200,
     body = [(''status'', JStr ''success''),
             (''created'', JArr [JObj [(''id'', JInt 100), (''name'', JStr ''L2''),
                                      (''elevation_mm'', JNum 3000.0)]]),
             (''count'', JInt 1),
             (''message'', JStr ''Created 1 level(s)'')]\<rparr>,
    toy_model\<lparr>t_elems := t_elems toy_model @ [(100, ''level'', ''L2'')],
               t_elevations := [(1, 0), (100, 3000 / 304.8)], t_next_id := 101\<rparr>)"
proof -
  let ?d0 = "toy_model\<lparr>t_snapshot := Some (t_elems toy_model, [(1, 0)], 100)\<rparr>"
  let ?d1 = "?d0\<lparr>t_elems := t_elems toy_model @ [(100, ''level'', ''New Level'')],
                 t_elevations := [(1, 0), (100, 3000 / 304.8)], t_next_id := 101\<rparr>"
  let ?d2 = "?d1\<lparr>t_elems := t_elems toy_model @ [(100, ''level'', ''L2'')]\<rparr>"
  let ?d3 = "?d2\<lparr>t_snapshot := None\<rparr>"
  have a: "has_doc toy_host toy_model" by (simp add: toy_defs)
  have b: "tx_start toy_host ''Create Levels'' toy_model = (Inr (), ?d0)" by (simp add: toy_defs)
  have c: "level_create toy_host (3000 / 304.8) ?d0 = (Inr 100, ?d1)" by (simp add: toy_defs)
  have d: "set_name toy_host 100 ''L2'' ?d1 = (Inr (), ?d2)" by (simp add: toy_defs)
  have e: "elem_name toy_host ?d2 100 = Inr (Some ''L2'')" by (simp add: toy_defs)
  have f: "tx_commit toy_host ?d2 = (Inr (), ?d3)" by (simp add: toy_defs)
  have g: "?d3 = toy_model\<lparr>t_elems := t_elems toy_model @ [(100, ''level'', ''L2'')],
                           t_elevations := [(1, 0), (100, 3000 / 304.8)], t_next_id := 101\<rparr>"
    by (simp add: toy_defs)
  from create_level_scenario[OF a b c d e f, of toy_rt] g show ?thesis by simp
qed

lemma points_to_segments_length: "length (points_to_segments points) = length points"
  by (simp add: points_to_segments_def)

lemma points_to_segments_nth:
  "i < length points \<Longrightarrow>
   points_to_segments points ! i =
     JObj [(''p0'', points ! i), (''p1'', points ! ((i + 1) mod length points))]"
  by (simp add: points_to_segments_def)

lemma points_to_segments_hd:
  "points \<noteq> [] \<Longrightarrow> \<exists>q rest. points_to_segments points = JObj [(''p0'', hd points), (''p1'', q)] # rest"
proof -
  assume ne: "points \<noteq> []"
  then have "0 < length points" by simp
  then have "points_to_segments points ! 0 = JObj [(''p0'', points ! 0), (''p1'', points ! (1 mod length points))]"
    using points_to_segments_nth[of 0 points] by simp
  moreover have "points_to_segments points \<noteq> []"
    using ne points_to_segments_length[of points] by auto
  ultimately show ?thesis
    using ne by (cases "points_to_segments points") (auto simp: hd_conv_nth)
qed

lemma points_to_segments_last:
  "points \<noteq> [] \<Longrightarrow>
   last (points_to_segments points) = JObj [(''p0'', last points), (''p1'', hd points)]"
proof -
  assume ne: "points \<noteq> []"
  let ?n = "length points"
  have n: "0 < ?n" using ne by simp
  have "last (points_to_segments points) = points_to_segments points ! (?n - 1)"
    using ne points_to_segments_length[of points]
    by (metis last_conv_nth length_0_conv)
  also have "\<dots> = JObj [(''p0'', points ! (?n - 1)), (''p1'', points ! ((?n - 1 + 1) mod ?n))]"
    using n by (intro points_to_segments_nth) simp
  also have "(?n - 1 + 1) mod ?n = 0" using n by simp
  finally show ?thesis using ne by (simp add: last_conv_nth hd_conv_nth)
qed

lemma distance_to_self: "distance_to p p = 0"
  by (cases p) (simp add: distance_to_def)

lemma boundary_ends_points:
  assumes "points \<noteq> []"
  shows "boundary_ends r (points_to_segments points) =
           (case point3 r (hd points) of Inl e \<Rightarrow> Inl e | Inr p \<Rightarrow> Inr (p, p))"
proof -
  from points_to_segments_hd[OF assms] obtain q rest where
    hdeq: "points_to_segments points = JObj [(''p0'', hd points), (''p1'', q)] # rest" by blast
  have lst: "last (points_to_segments points) = JObj [(''p0'', last points), (''p1'', hd points)]"
    by (rule points_to_segments_last[OF assms])
  show ?thesis
    unfolding boundary_ends_def using lst by (simp add: hdeq split: sum.splits)
qed

lemma closed_check_ends:
  "closed_check r idx segs =
     (case boundary_ends r segs of
        Inl e \<Rightarrow> Raise e
      | Inr (fp, lp) \<Rightarrow>
          if distance_to fp lp > 1.0 then
            Skip (''Element '' @ show_nat idx @ '': Boundary must form a closed polygon '' @ em_dash @
                  '' last point '' @ show_point r lp @ '' does not match first point '' @
                  show_point r fp)
          else Ok ())"
  by (simp add: closed_check_def)

text \<open>
  Claim C10. \<open>surface_item\<close> is what /create\_surface/ does with one element of the request.
  When the element is a floor, a ceiling or a roof whose boundary is a point array (its
  first entry has an \<^verbatim>\<open>x\<close> or a \<^verbatim>\<open>y\<close>) of \<open>n \<ge> 3\<close> points, the handler goes on with exactly
  \<open>n\<close> segments, segment \<open>i\<close> from point \<open>i\<close> to point \<open>(i + 1) mod n\<close>, and asks the host for
  the line between these two points, in feet. The boundary so obtained is closed, its first
  and its last point being the same, and the closed-polygon check never rejects it: reading
  a coordinate of the first point raises, or the handler goes on to the level, the type and
  the creation of the floor or roof with these segments.
\<close>

theorem point_boundary_closed:
  assumes "py_get elem ''element_type'' JNull = Inr element_type"
    and "element_type \<in> {JStr ''floor'', JStr ''roof'', JStr ''ceiling''}"
    and "py_get elem ''boundary'' (JArr []) = Inr (JArr points)"
    and "3 \<le> length points"
    and "is_point_format (hd points) = Inr True"
  shows "\<exists>segs.
           length segs = length points \<and>
           (\<forall>i<length points.
              segs ! i = JObj [(''p0'', points ! i), (''p1'', points ! ((i + 1) mod length points))]) \<and>
           (\<forall>i<length points.
              seg_line h r (segs ! i) =
                ebind (seg_point r (points ! i)) (\<lambda>s.
                ebind (seg_point r (points ! ((i + 1) mod length points))) (\<lambda>e.
                  line_create_bound h s e))) \<and>
           (\<forall>fp lp. boundary_ends r segs = Inr (fp, lp) \<longrightarrow> fp = lp) \<and>
           (\<forall>message. closed_check r idx segs \<noteq> Skip message) \<and>
           surface_item h r level_map floor_type_map roof_type_map idx elem d =
             (case boundary_ends r segs of
                Inl e \<Rightarrow> (Raise e, d)
              | Inr ends \<Rightarrow>
                  tbind (find_level h r idx level_map elem d) (\<lambda>level d.
                    if element_type = JStr ''floor'' \<or> element_type = JStr ''ceiling''
                    then floor_item h r idx floor_type_map elem element_type segs level d
                    else roof_item h r idx roof_type_map elem segs level d))"
proof -
  let ?segs = "points_to_segments points"
  from assms(4) obtain p ps where pts: "points = p # ps" by (cases points) auto
  then have ne: "points \<noteq> []" by simp
  have rb: "read_boundary idx elem = Ok ?segs"
    using assms(3,4,5) by (simp add: read_boundary_def pts)
  note be = boundary_ends_points[OF ne, of r]
  have cl: "fp = lp" if "boundary_ends r ?segs = Inr (fp, lp)" for fp lp
    using that be by (auto split: sum.splits)
  have cc: "closed_check r idx ?segs =
      (case boundary_ends r ?segs of Inl e \<Rightarrow> Raise e | Inr ends \<Rightarrow> Ok ())"
    using be by (auto simp: closed_check_ends distance_to_self split: sum.splits)
  then have ns: "closed_check r idx ?segs \<noteq> Skip message" for message
    by (auto split: sum.splits)
  have tr: "truthy element_type" using assms(2) by auto
  have si: "surface_item h r level_map floor_type_map roof_type_map idx elem d =
      (case boundary_ends r ?segs of
         Inl e \<Rightarrow> (Raise e, d)
       | Inr ends \<Rightarrow>
           tbind (find_level h r idx level_map elem d) (\<lambda>level d.
             if element_type = JStr ''floor'' \<or> element_type = JStr ''ceiling''
             then floor_item h r idx floor_type_map elem element_type ?segs level d
             else roof_item h r idx roof_type_map elem ?segs level d))"
    unfolding surface_item_def using assms(1,2) tr rb cc
    by (auto split: sum.splits)
  have "length ?segs = length points" by (rule points_to_segments_length)
  moreover have "\<forall>i<length points.
      ?segs ! i = JObj [(''p0'', points ! i), (''p1'', points ! ((i + 1) mod length points))]"
    by (simp add: points_to_segments_nth)
  moreover have "\<forall>i<length points.
      seg_line h r (?segs ! i) =
        ebind (seg_point r (points ! i)) (\<lambda>s.
        ebind (seg_point r (points ! ((i + 1) mod length points))) (\<lambda>e.
          line_create_bound h s e))"
    by (simp add: points_to_segments_nth seg_line_def)
  ultimately show ?thesis using cl ns si by blast
qed

theorem point_boundary_closed_witness:
  "py_get toy_floor ''element_type'' JNull = Inr (JStr ''floor'') \<and>
   py_get toy_floor ''boundary'' (JArr []) = Inr (JArr toy_triangle) \<and>
   3 \<le> length toy_triangle \<and>
   is_point_format (hd toy_triangle) = Inr True \<and>
   (\<exists>segs.
      segs =
        [JObj [(''p0'', JObj [(''x'', JInt 0), (''y'', JInt 0)]),
               (''p1'', JObj [(''x'', JInt 4000), (''y'', JInt 0)])],
         JObj [(''p0'', JObj [(''x'', JInt 4000), (''y'', JInt 0)]),
               (''p1'', JObj [(''x'', JInt 0), (''y'', JInt 3000)])],
         JObj [(''p0'', JObj [(''x'', JInt 0), (''y'', JInt 3000)]),
               (''p1'', JObj [(''x'', JInt 0), (''y'', JInt 0)])]] \<and>
      closed_check toy_rt 0 segs = Ok () \<and>
      surface_item toy_host toy_rt [(''Level 1'', 1)] [(''Slab'', 40)] [] 0 toy_floor toy_model =
        floor_item toy_host toy_rt 0 [(''Slab'', 40)] toy_floor (JStr ''floor'') segs 1 toy_model)"
proof -
  have a: "py_get toy_floor ''element_type'' JNull = Inr (JStr ''floor'')"
    by (simp add: toy_floor_def)
  have a': "JStr ''floor'' \<in> {JStr ''floor'', JStr ''roof'', JStr ''ceiling''}" by simp
  have b: "py_get toy_floor ''boundary'' (JArr []) = Inr (JArr toy_triangle)"
    by (simp add: toy_floor_def)
  have c: "3 \<le> length toy_triangle" by (simp add: toy_triangle_def)
  have e: "is_point_format (hd toy_triangle) = Inr True"
    by (simp add: toy_triangle_def is_point_format_def)
  let ?segs = "[JObj [(''p0'', JObj [(''x'', JInt 0), (''y'', JInt 0)]),
               (''p1'', JObj [(''x'', JInt 4000), (''y'', JInt 0)])],
         JObj [(''p0'', JObj [(''x'', JInt 4000), (''y'', JInt 0)]),
               (''p1'', JObj [(''x'', JInt 0), (''y'', JInt 3000)])],
         JObj [(''p0'', JObj [(''x'', JInt 0), (''y'', JInt 3000)]),
               (''p1'', JObj [(''x'', JInt 0), (''y'', JInt 0)])]]"
  from point_boundary_closed[OF a a' b c e, where r = toy_rt and idx = 0 and h = toy_host
      and level_map = "[(''Level 1'', 1)]" and floor_type_map = "[(''Slab'', 40)]"
      and roof_type_map = "[]" and d = toy_model]
  obtain segs where n: "length segs = length toy_triangle"
    and nth: "\<And>i. i < length toy_triangle \<Longrightarrow>
        segs ! i = JObj [(''p0'', toy_triangle ! i),
                         (''p1'', toy_triangle ! ((i + 1) mod length toy_triangle))]"
    and si: "surface_item toy_host toy_rt [(''Level 1'', 1)] [(''Slab'', 40)] [] 0 toy_floor toy_model =
      (case boundary_ends toy_rt segs of
         Inl e \<Rightarrow> (Raise e, toy_model)
       | Inr ends \<Rightarrow>
           tbind (find_level toy_host toy_rt 0 [(''Level 1'', 1)] toy_floor toy_model) (\<lambda>level d.
             if JStr ''floor'' = JStr ''floor'' \<or> JStr ''floor'' = JStr ''ceiling''
             then floor_item toy_host toy_rt 0 [(''Slab'', 40)] toy_floor (JStr ''floor'') segs level d
             else roof_item toy_host toy_rt 0 [] toy_floor segs level d))"
    by blast
  have l3: "length toy_triangle = 3" by (simp add: toy_triangle_def)
  have "segs = ?segs"
  proof (rule nth_equalityI)
    show "length segs = length ?segs" using n l3 by simp
    show "segs ! i = ?segs ! i" if "i < length segs" for i
    proof -
      from that n l3 have "i = 0 \<or> i = 1 \<or> i = 2" by auto
      then show ?thesis using nth[of i] l3 by (auto simp: toy_triangle_def)
    qed
  qed
  moreover have "closed_check toy_rt 0 ?segs = Ok ()"
    by (simp add: closed_check_def boundary_ends_def point3_def distance_to_self)
  moreover have "boundary_ends toy_rt ?segs = Inr ((0, 0, 0), (0, 0, 0))"
    by (simp add: boundary_ends_def point3_def)
  moreover have "find_level toy_host toy_rt 0 [(''Level 1'', 1)] toy_floor toy_model =
      (Ok 1, toy_model)"
    by (simp add: find_level_def toy_floor_def)
  ultimately have "closed_check toy_rt 0 ?segs = Ok () \<and>
      surface_item toy_host toy_rt [(''Level 1'', 1)] [(''Slab'', 40)] [] 0 toy_floor toy_model =
        floor_item toy_host toy_rt 0 [(''Slab'', 40)] toy_floor (JStr ''floor'') ?segs 1 toy_model"
    using si by simp
  with a b c e show ?thesis by simp
qed




lemma batch_loop_length:
  "batch_loop label item idx elems acc d = (acc', d') \<Longrightarrow>
   length (fst acc') + length (snd acc') = length (fst acc) + length (snd acc) + length elems"
proof (induction elems arbitrary: idx acc d)
  case Nil
  then show ?case by simp
next
  case (Cons e es)
  obtain s d1 where it: "item idx e d = (s, d1)" by (cases "item idx e d")
  show ?case
  proof (cases s)
    case (Raise x)
    with Cons.prems it have
      "batch_loop label item (Suc idx) es
         (fst acc, snd acc @ [label @ '' '' @ show_nat idx @ '': '' @ exn_msg x]) d1 = (acc', d')"
      by simp
    from Cons.IH[OF this] show ?thesis by simp
  next
    case (Skip m)
    with Cons.prems it have
      "batch_loop label item (Suc idx) es (fst acc, snd acc @ [m]) d1 = (acc', d')" by simp
    from Cons.IH[OF this] show ?thesis by simp
  next
    case (Ok c)
    with Cons.prems it have
      "batch_loop label item (Suc idx) es (fst acc @ [c], snd acc) d1 = (acc', d')" by simp
    from Cons.IH[OF this] show ?thesis by simp
  qed
qed

lemma transaction_failed_status:
  "transaction_failed h e d = (Inr resp, d') \<Longrightarrow> status resp = 500"
  unfolding transaction_failed_def
  by (auto simp: make_response_def dest!: sbind_Inr_D)


subsection \<open>Batch creation\<close>















lemma entry_id_id [simp]: "entry_id (JObj ((''id'', JInt i) # kvs)) = Some i"
  by (simp add: entry_id_def)

















lemma transaction_failed_503: "transaction_failed h e d = (Inr resp, d') \<Longrightarrow> status resp \<noteq> 503"
  by (drule transaction_failed_status) simp

lemma execute_code_never_503: "\<not> answers_503 (fst (execute_code h r d req))"
proof -
  obtain res d' where b: "execute_code_body h r d req = (res, d')"
    by (cases "execute_code_body h r d req")
  show ?thesis
  proof (cases res)
    case (Inl e)
    with b show ?thesis by (simp add: execute_code_def make_response_def answers_503_def)
  next
    case (Inr resp)
    with b have "status resp \<in> {200, 400, 500}"
      unfolding execute_code_body_def
      by (auto simp: make_response_def code_success_def ok_response_def code_error_def Let_def
          split: sum.splits if_splits prod.splits dest!: sbind_Inr_D)
    with b Inr show ?thesis by (auto simp: execute_code_def answers_503_def)
  qed
qed

lemma execute_code_toy_none:
  "execute_code toy_host toy_rt toy_none (Some (JObj [(''code'', JStr ''print 1'')])) =
     (Inr \<lparr>status = 500,
           body = [(''error'', JStr ''Value cannot be null. Parameter name: document'')]\<rparr>,
      toy_none)"
  by (simp add: execute_code_def execute_code_body_def load_data_def request_data_def toy_defs
      make_response_def)

lemma execute_code_without_document_or_code:
  "execute_code h r d (Some (JObj [])) =
     (Inr \<lparr>status = 400, body = [(''error'', JStr ''No code provided'')]\<rparr>, d)"
  by (simp add: execute_code_def execute_code_body_def load_data_def request_data_def
      make_response_def)

text \<open>
  Claim C2 says that every route answers 503 with an \<^verbatim>\<open>error\<close> field when no document is
  active. /execute\_code/ does not: it has no check for the document, so with no document
  it answers 400 when no code is given and otherwise goes on to open a transaction on the
  missing document; whatever the host does then, the status is never 503. On the example
  host, which refuses the transaction, the answer is a 500.
\<close>

theorem execute_code_without_document:
  "\<not> has_doc toy_host toy_none \<and>
   execute_code toy_host toy_rt toy_none (Some (JObj [(''code'', JStr ''print 1'')])) =
     (Inr \<lparr>status = 500,
           body = [(''error'', JStr ''Value cannot be null. Parameter name: document'')]\<rparr>,
      toy_none) \<and>
   execute_code toy_host toy_rt toy_none (Some (JObj [])) =
     (Inr \<lparr>status = 400, body = [(''error'', JStr ''No code provided'')]\<rparr>, toy_none) \<and>
   (\<forall>req. \<not> answers_503 (fst (execute_code toy_host toy_rt toy_none req)))"
proof (intro conjI allI)
  show "\<not> has_doc toy_host toy_none" by (simp add: toy_defs)
  show "execute_code toy_host toy_rt toy_none (Some (JObj [(''code'', JStr ''print 1'')])) =
     (Inr \<lparr>status = 500,
           body = [(''error'', JStr ''Value cannot be null. Parameter name: document'')]\<rparr>,
      toy_none)"
    by (rule execute_code_toy_none)
  show "execute_code toy_host toy_rt toy_none (Some (JObj [])) =
     (Inr \<lparr>status = 400, body = [(''error'', JStr ''No code provided'')]\<rparr>, toy_none)"
    by (rule execute_code_without_document_or_code)
  show "\<not> answers_503 (fst (execute_code toy_host toy_rt toy_none req))" for req
    by (rule execute_code_never_503)
qed

lemma py_round_929_03: "py_round (92903 / 100) 2 = 92903 / 100"
  by (simp add: py_round_def)

lemma area_sqm_929: "area_sqm 10000 = 929"
  by (simp add: area_sqm_def py_round_def SQFT_TO_SQM_def)

text \<open>
  Claim C4 says that every handler converts areas with the factor 0.0929. /create\_room/
  does not: it multiplies by 0.092903, so for a room of 10000 square feet it reports 929.03
  square metres where the conversion of analysis.py, which /room\_data/ applies to the same
  room, gives 929.0.
\<close>

theorem create_room_area_factor:
  "room_area toy_host toy_model 100 = 929.03 \<and>
   area_sqm 10000 = 929 \<and>
   lookup_parameter toy_host toy_model 100 ''Area'' =
     Inr (Some \<lparr>is_read_only = True, has_value = True, as_double = Inr 10000, as_string = Inr None\<rparr>)"
  by (simp add: room_area_def toy_defs py_round_929_03 area_sqm_929)

















lemma execute_code_escape:
  assumes "load_data r req = Inr data"
    and "py_get data ''code'' (JStr []) = Inr code" and "truthy code"
    and "py_get data ''description'' (JStr ''Code execution'') = Inr description"
    and "tx_start h (''MCP Code Execution: '' @ py_str r description) d = (Inr (), d0)"
    and "exec_code h code d0 = ((Inl e, out), d1)" and "\<not> is_exception r e"
  shows "execute_code h r d req = (Inl e, d1)"
  using assms by (simp add: execute_code_def execute_code_body_def)






subsection \<open>The shapes of the responses\<close>

lemmas envelope_defs =
  envelope_def code_envelope_def success_envelope_def output_envelope_def traceback_envelope_def
  error_only_envelope_def has_string_def make_response_def ok_response_def

lemma envelopeI:
  "success_envelope resp \<Longrightarrow> envelope resp"
  "traceback_envelope resp \<Longrightarrow> envelope resp"
  "error_only_envelope resp \<Longrightarrow> envelope resp"
  by (simp_all add: envelope_def)

lemma error_only_simp [simp]:
  "error_only_envelope (make_response [(''error'', JStr s)] 400)"
  "error_only_envelope (make_response [(''error'', JStr s)] 500)"
  "error_only_envelope (make_response [(''error'', JStr s)] 503)"
  by (simp_all add: envelope_defs)

lemma error_500_envelope: "traceback_envelope (error_500 r e)"
  by (simp add: envelope_defs error_500_def)

lemma batch_transaction_envelope:
  "batch_transaction h tx_name label unit item elements d = (Inr resp, d') \<Longrightarrow> envelope resp"
  by (auto simp: batch_transaction_def transaction_failed_def batch_success_def envelope_defs
      dest!: sbind_Inr_D split: prod.splits sum.splits)

lemma create_level_body_envelope:
  "create_level_body h r d req = (Inr resp, d') \<Longrightarrow> envelope resp"
  by (auto simp: create_level_body_def no_document_2026_def envelope_defs
      dest: batch_transaction_envelope split: if_splits sum.splits)

lemma create_line_body_envelope:
  "create_line_body h r d req = (Inr resp, d') \<Longrightarrow> envelope resp"
  by (auto simp: create_line_body_def no_document_2026_def no_elements_provided_def Let_def
      envelope_defs dest: batch_transaction_envelope split: if_splits sum.splits)

lemma create_surface_body_envelope:
  "create_surface_body h r d req = (Inr resp, d') \<Longrightarrow> envelope resp"
  by (auto simp: create_surface_body_def no_document_2026_def no_elements_provided_def Let_def
      envelope_defs dest: batch_transaction_envelope split: if_splits sum.splits)

lemma validate_ids_envelope:
  "validate_ids h r d js acc = Inr (Inl resp) \<Longrightarrow> error_only_envelope resp"
  by (induction js arbitrary: acc)
     (auto simp: envelope_defs dest!: ebind_Inr_D split: if_splits)

lemma delete_transaction_envelope:
  "delete_transaction h ids d = (Inr resp, d') \<Longrightarrow> success_envelope resp"
  by (auto simp: delete_transaction_def delete_try_def delete_success_def Let_def envelope_defs
      dest!: sbind_Inr_D split: prod.splits sum.splits)

lemma delete_elements_body_envelope:
  "delete_elements_body h r d req = (Inr resp, d') \<Longrightarrow> envelope resp"
  by (auto simp: delete_elements_body_def
      dest!: sbind_Inr_D ebind_Inr_D dest: validate_ids_envelope delete_transaction_envelope
      intro: envelopeI split: if_splits sum.splits)

lemma grid_transaction_envelope:
  "grid_transaction h r grids d = (Inr resp, d') \<Longrightarrow> success_envelope resp"
  by (auto simp: grid_transaction_def grid_try_def grid_success_def envelope_defs
      dest!: sbind_Inr_D split: prod.splits sum.splits)

lemma create_grid_body_envelope:
  "create_grid_body h r d req = (Inr resp, d') \<Longrightarrow> envelope resp"
  by (auto simp: create_grid_body_def
      dest!: sbind_Inr_D dest: grid_transaction_envelope
      intro: envelopeI split: if_splits sum.splits)

lemma room_transaction_envelope:
  "room_transaction h r data level_name target_level phase d = (Inr resp, d') \<Longrightarrow> envelope resp"
  by (auto simp: room_transaction_def room_try_def room_success_def no_room_response_def Let_def
      envelope_defs dest!: sbind_Inr_D split: prod.splits sum.splits option.splits)

lemma create_room_body_envelope:
  "create_room_body h r d req = (Inr resp, d') \<Longrightarrow> envelope resp"
  by (auto simp: create_room_body_def
      dest!: sbind_Inr_D dest: room_transaction_envelope
      intro: envelopeI split: if_splits sum.splits option.splits list.splits prod.splits)
     (simp_all add: envelope_defs)

lemma execute_code_body_envelope:
  "execute_code_body h r d req = (Inr resp, d') \<Longrightarrow> code_envelope resp"
  by (auto simp: execute_code_body_def code_success_def code_error_def Let_def envelope_defs
      dest!: sbind_Inr_D split: if_splits sum.splits prod.splits)

lemma filter_view_envelope: "filter_view h d v = Inl resp \<Longrightarrow> error_only_envelope resp"
  by (auto simp: filter_view_def envelope_defs split: if_splits option.splits)

lemma filter_category_envelope:
  "filter_category h r c = Inr (Inl resp) \<Longrightarrow> error_only_envelope resp"
  by (auto simp: filter_category_def envelope_defs split: if_splits json.splits)

lemma filter_success_envelope:
  "filter_success c all_elements elements = Inr resp \<Longrightarrow> success_envelope resp"
  by (auto simp: filter_success_def envelope_defs dest!: ebind_Inr_D)

lemma ai_filter_body_envelope:
  "ai_filter_body h r d req = Inr resp \<Longrightarrow> envelope resp"
  by (auto simp: ai_filter_body_def dest!: ebind_Inr_D intro: envelopeI
      split: if_splits sum.splits)
     (fast intro: envelopeI
        dest: filter_view_envelope filter_category_envelope filter_success_envelope)+

lemma create_level_handler_envelope: "envelope (fst (create_level_handler h r d req))"
proof (cases "create_level_body h r d req")
  case (Pair a d')
  then show ?thesis
    by (cases a)
       (auto simp: create_level_handler_def intro: envelopeI error_500_envelope
          dest: create_level_body_envelope)
qed

lemma create_line_based_envelope: "envelope (fst (create_line_based h r d req))"
proof (cases "create_line_body h r d req")
  case (Pair a d')
  then show ?thesis
    by (cases a)
       (auto simp: create_line_based_def intro: envelopeI error_500_envelope
          dest: create_line_body_envelope)
qed

lemma create_surface_based_envelope: "envelope (fst (create_surface_based h r d req))"
proof (cases "create_surface_body h r d req")
  case (Pair a d')
  then show ?thesis
    by (cases a)
       (auto simp: create_surface_based_def intro: envelopeI error_500_envelope
          dest: create_surface_body_envelope)
qed

lemma delete_elements_handler_envelope: "envelope (fst (delete_elements_handler h r d req))"
proof (cases "delete_elements_body h r d req")
  case (Pair a d')
  then show ?thesis
    by (cases a)
       (auto simp: delete_elements_handler_def intro: envelopeI error_500_envelope
          dest: delete_elements_body_envelope)
qed

lemma create_grid_handler_envelope: "envelope (fst (create_grid_handler h r d req))"
proof (cases "create_grid_body h r d req")
  case (Pair a d')
  then show ?thesis
    by (cases a)
       (auto simp: create_grid_handler_def intro: envelopeI error_500_envelope
          dest: create_grid_body_envelope)
qed

lemma create_room_handler_envelope: "envelope (fst (create_room_handler h r d req))"
proof (cases "create_room_body h r d req")
  case (Pair a d')
  then show ?thesis
    by (cases a)
       (auto simp: create_room_handler_def intro: envelopeI error_500_envelope
          dest: create_room_body_envelope)
qed

lemma ai_element_filter_handler_envelope:
  "envelope (fst (ai_element_filter_handler h r d req))"
  by (cases "ai_filter_body h r d req")
     (auto simp: ai_element_filter_handler_def intro: envelopeI error_500_envelope
        dest: ai_filter_body_envelope)

lemma execute_code_envelope: "code_outcome r (fst (execute_code h r d req))"
proof (cases "execute_code_body h r d req")
  case (Pair a d')
  then show ?thesis
    by (cases a)
       (auto simp: execute_code_def code_outcome_def code_envelope_def
          dest: execute_code_body_envelope)
qed

text \<open>The success response of /execute\_code/ on the example host has no \<^verbatim>\<open>message\<close>.\<close>

lemma execute_code_success_without_message:
  "execute_code toy_host toy_rt toy_model (Some (JObj [(''code'', JStr ''print 1'')])) =
     (Inr (code_success (JStr ''Code execution'') (JStr ''print 1'') ''1''), toy_model) \<and>
   output_envelope (code_success (JStr ''Code execution'') (JStr ''print 1'') ''1'') \<and>
   \<not> success_envelope (code_success (JStr ''Code execution'') (JStr ''print 1'') ''1'')"
  by (simp add: execute_code_def execute_code_body_def code_success_def load_data_def
      request_data_def toy_defs envelope_defs)

text \<open>
  Claim C6, as amended. Whatever the host and the request, the response of each handler has
  one of three shapes:
  \<^item> a success envelope: status 200, \<^verbatim>\<open>"status": "success"\<close> and a string \<^verbatim>\<open>message\<close> (in
    /execute\_code/, a string \<^verbatim>\<open>output\<close> and no \<^verbatim>\<open>message\<close>);
  \<^item> an error with a string \<^verbatim>\<open>error\<close> and a string \<^verbatim>\<open>traceback\<close>, of status 500;
  \<^item> an error with a string \<^verbatim>\<open>error\<close> and no \<^verbatim>\<open>traceback\<close>, of status 400, 404, 500 or
    503.

  /execute\_code/ gives no response at all when an exception that is no instance of
  \<^verbatim>\<open>Exception\<close> leaves the handler.
\<close>

theorem response_envelopes:
  "envelope (fst (create_level_handler h r d req)) \<and>
   envelope (fst (create_line_based h r d req)) \<and>
   envelope (fst (create_surface_based h r d req)) \<and>
   envelope (fst (delete_elements_handler h r d req)) \<and>
   envelope (fst (create_grid_handler h r d req)) \<and>
   envelope (fst (create_room_handler h r d req)) \<and>
   envelope (fst (ai_element_filter_handler h r d req)) \<and>
   code_outcome r (fst (execute_code h r d req))"
  by (intro conjI create_level_handler_envelope create_line_based_envelope
      create_surface_based_envelope delete_elements_handler_envelope
      create_grid_handler_envelope create_room_handler_envelope
      ai_element_filter_handler_envelope execute_code_envelope)

text \<open>
  The answer of /delete\_elements/ to a request with an empty body: an error without
  \<^verbatim>\<open>traceback\<close>.
\<close>

theorem delete_elements_error_without_traceback:
  "fst (delete_elements_handler toy_host toy_rt toy_model (Some (JObj []))) =
     \<lparr>status = 400, body = [(''error'', JStr ''No data provided'')]\<rparr>"
  by (simp add: delete_elements_handler_def delete_elements_body_def no_request_data_def
      make_response_def toy_defs)

end
